theory Spec2Isabelle
  imports Complex_Main
begin

section \<open>Data model of the order tracker\<close>

text \<open>
  Python's \<^verbatim>\<open>Decimal\<close> values and the float timestamps are both embedded as
  rationals. Sums, differences, products and comparisons of them are taken exactly. The one
  computation of the tracker that mixes binary floating point into a price, the price buffer
  of \<^verbatim>\<open>close_filled_order\<close>, is embedded with its roundings.
\<close>

type_synonym Decimal = rat
type_synonym timestamp = rat

text \<open>The enumerations of the exchange library, restricted to the members the tracker uses.\<close>

datatype TradeType = BUY | SELL

datatype OrderType = MARKET | LIMIT | LIMIT_MAKER

datatype PositionAction = OPEN | CLOSE | NIL

datatype CloseType = TIME_LIMIT | STOP_LOSS | TAKE_PROFIT | EXPIRED | EARLY_STOP

record TripleBarrier =
  stop_loss_delta :: "Decimal option"
  take_profit_delta :: "Decimal option"
  time_limit :: "int option"
  open_order_type :: OrderType
  take_profit_order_type :: OrderType
  time_limit_order_type :: OrderType

record TrackedOrderDetails =
  connector_name :: string
  trading_pair :: string
  side :: TradeType
  order_id :: string
  amount :: Decimal
  entry_price :: Decimal
  triple_barrier :: TripleBarrier
  ref :: string
  created_at :: timestamp
  filled_amount :: Decimal
  exchange_order_id :: "string option"
  last_filled_at :: "timestamp option"
  last_filled_price :: "Decimal option"
  terminated_at :: "timestamp option"
  close_type :: "CloseType option"

text \<open>
  Python truthiness of an optional number: \<^verbatim>\<open>None\<close> and zero are both false.
\<close>

definition truthy :: "'a::zero option \<Rightarrow> bool" where
  "truthy x = (case x of None \<Rightarrow> False | Some v \<Rightarrow> v \<noteq> 0)"

text \<open>
  A take-profit order holds a reference to its parent tracked order. The tracker reads only
  \<^verbatim>\<open>order_id\<close> through that reference, a field no operation ever assigns, so the
  reference is embedded as the parent's record at the time the take-profit order was built.
  Fields whose names the Python classes share carry a prefix here.
\<close>

record TakeProfitLimitOrder =
  tp_order_id :: string
  tp_tracked_order :: TrackedOrderDetails
  tp_amount :: Decimal
  tp_entry_price :: Decimal
  tp_created_at :: timestamp
  tp_filled_amount :: Decimal
  tp_last_filled_at :: "timestamp option"
  tp_last_filled_price :: "Decimal option"

text \<open>The fields of \<^verbatim>\<open>ExcaliburConfig\<close> that \<^verbatim>\<open>PkStrategy\<close> reads.\<close>

record ExcaliburConfig =
  cfg_connector_name :: string
  cfg_trading_pair :: string
  leverage :: int
  unfilled_order_expiration :: int
  limit_take_profit_price_delta_bps :: int

record PositionExecutorConfig =
  ec_timestamp :: timestamp
  ec_connector_name :: string
  ec_trading_pair :: string
  ec_side :: TradeType
  ec_entry_price :: Decimal
  ec_amount :: Decimal
  ec_leverage :: int

text \<open>The events of the exchange connector; \<^verbatim>\<open>position\<close> is an optional string.\<close>

record OrderCreatedEvent =
  ce_order_id :: string
  ce_exchange_order_id :: "string option"
  ce_position :: "string option"

record OrderFilledEvent =
  fe_order_id :: string
  fe_amount :: Decimal
  fe_price :: Decimal
  fe_timestamp :: timestamp
  fe_position :: "string option"

record OrderCancelledEvent =
  ca_order_id :: string

text \<open>The prices the market data provider returns during one call.\<close>

record MarketData =
  mid_price :: Decimal
  best_bid :: Decimal
  best_ask :: Decimal

text \<open>
  The inherited \<^verbatim>\<open>buy\<close>, \<^verbatim>\<open>sell\<close> and \<^verbatim>\<open>cancel\<close> methods talk to the exchange.
  A call is recorded with its arguments (connector, pair, amount, order type, price, position
  action; connector, pair, order id for a cancel). The exchange side is a parameter: a function
  from the calls made so far, the current one last, to the order id it returns or the error it
  raises.
\<close>

datatype gateway_call =
    Buy string string Decimal OrderType Decimal PositionAction
  | Sell string string Decimal OrderType Decimal PositionAction
  | Cancel string string string

datatype error =
    DivisionByZero | InvalidOperation | TypeError | ZeroDivisionError | OverflowError | GatewayError string

type_synonym gateway = "gateway_call list \<Rightarrow> error + string"

text \<open>
  The attributes of a \<^verbatim>\<open>PkStrategy\<close> object, and the calls it has made to the exchange.
\<close>

record PkStrategy =
  config :: ExcaliburConfig
  is_a_sell_order_being_created :: bool
  is_a_buy_order_being_created :: bool
  tracked_orders :: "TrackedOrderDetails list"
  take_profit_limit_orders :: "TakeProfitLimitOrder list"
  gateway_calls :: "gateway_call list"

text \<open>
  A method that mutates the strategy either returns (\<open>Inr\<close>, the state after it) or raises
  (\<open>Inl\<close>, the error and the state the assignments made so far have left).
\<close>

type_synonym outcome = "(error \<times> PkStrategy) + PkStrategy"

definition state_of :: "outcome \<Rightarrow> PkStrategy" where
  "state_of r = (case r of Inl (e, s) \<Rightarrow> s | Inr s \<Rightarrow> s)"

definition then_do :: "outcome \<Rightarrow> (PkStrategy \<Rightarrow> outcome) \<Rightarrow> outcome" where
  "then_do r f = (case r of Inl e \<Rightarrow> Inl e | Inr s \<Rightarrow> f s)"

text \<open>A \<^verbatim>\<open>for\<close> loop over a list fixed before the loop starts.\<close>

primrec for_each :: "('a \<Rightarrow> PkStrategy \<Rightarrow> outcome) \<Rightarrow> 'a list \<Rightarrow> PkStrategy \<Rightarrow> outcome" where
  "for_each f [] s = Inr s"
| "for_each f (x # xs) s = then_do (f x s) (for_each f xs)"

text \<open>
  \<^verbatim>\<open>for x in xs: if P(x): <assign to fields of x>; break\<close>: the first element that
  satisfies the test is updated, the others are left as they are.
\<close>

primrec update_first :: "('a \<Rightarrow> bool) \<Rightarrow> ('a \<Rightarrow> 'a) \<Rightarrow> 'a list \<Rightarrow> 'a list" where
  "update_first P f [] = []"
| "update_first P f (x # xs) = (if P x then f x # xs else x # update_first P f xs)"

text \<open>Python's \<^verbatim>\<open>max(xs, key=k)\<close> on a non-empty list: the first element with the largest key.\<close>

primrec max_from :: "('a \<Rightarrow> rat) \<Rightarrow> 'a \<Rightarrow> 'a list \<Rightarrow> 'a" where
  "max_from k best [] = best"
| "max_from k best (x # xs) = max_from k (if k x > k best then x else best) xs"

definition PositionAction_value :: "PositionAction \<Rightarrow> string" where
  "PositionAction_value a = (case a of OPEN \<Rightarrow> ''OPEN'' | CLOSE \<Rightarrow> ''CLOSE'' | NIL \<Rightarrow> ''NIL'')"

text \<open>\<^verbatim>\<open>not position or position == PositionAction.CLOSE.value\<close>\<close>

definition is_close_or_absent :: "string option \<Rightarrow> bool" where
  "is_close_or_absent position =
     (case position of None \<Rightarrow> True | Some p \<Rightarrow> p = [] \<or> p = PositionAction_value CLOSE)"

section \<open>Exit evaluation (pk_utils)\<close>

definition compute_stop_loss_price :: "TradeType \<Rightarrow> Decimal \<Rightarrow> Decimal \<Rightarrow> Decimal" where
  "compute_stop_loss_price sd ref_price delta =
     (if sd = SELL then ref_price * (1 + delta) else ref_price * (1 - delta))"

definition compute_take_profit_price :: "TradeType \<Rightarrow> Decimal \<Rightarrow> Decimal \<Rightarrow> Decimal" where
  "compute_take_profit_price sd ref_price delta =
     (if sd = SELL then ref_price * (1 - delta) else ref_price * (1 + delta))"

text \<open>\<^verbatim>\<open>tracked_order.last_filled_price or tracked_order.entry_price\<close>\<close>

definition ref_price_of :: "TrackedOrderDetails \<Rightarrow> Decimal" where
  "ref_price_of tracked_order =
     (if truthy (last_filled_price tracked_order) then the (last_filled_price tracked_order)
      else entry_price tracked_order)"

definition has_current_price_reached_stop_loss :: "TrackedOrderDetails \<Rightarrow> Decimal \<Rightarrow> bool" where
  "has_current_price_reached_stop_loss tracked_order current_price =
     (if \<not> truthy (stop_loss_delta (triple_barrier tracked_order)) then False
      else
        let stop_loss_price = compute_stop_loss_price (side tracked_order) (ref_price_of tracked_order)
                                (the (stop_loss_delta (triple_barrier tracked_order)))
        in if side tracked_order = SELL then current_price > stop_loss_price
           else current_price < stop_loss_price)"

definition has_current_price_reached_take_profit :: "TrackedOrderDetails \<Rightarrow> Decimal \<Rightarrow> bool" where
  "has_current_price_reached_take_profit tracked_order current_price =
     (if \<not> truthy (take_profit_delta (triple_barrier tracked_order)) then False
      else
        let take_profit_price = compute_take_profit_price (side tracked_order) (ref_price_of tracked_order)
                                  (the (take_profit_delta (triple_barrier tracked_order)))
        in if side tracked_order = SELL then current_price < take_profit_price
           else current_price > take_profit_price)"

text \<open>The tracker calls this one on tracked orders only.\<close>

definition has_unfilled_order_expired :: "TrackedOrderDetails \<Rightarrow> int \<Rightarrow> timestamp \<Rightarrow> bool" where
  "has_unfilled_order_expired order expiration current_timestamp =
     (created_at order + of_int expiration < current_timestamp)"

text \<open>
  \<^verbatim>\<open>filled_at + time_limit\<close> raises a \<^verbatim>\<open>TypeError\<close> when the order has no fill timestamp.
\<close>

definition has_filled_order_reached_time_limit :: "TrackedOrderDetails \<Rightarrow> timestamp \<Rightarrow> error + bool" where
  "has_filled_order_reached_time_limit tracked_order current_timestamp =
     (if \<not> truthy (time_limit (triple_barrier tracked_order)) then Inr False
      else case last_filled_at tracked_order of
             None \<Rightarrow> Inl TypeError
           | Some filled_at \<Rightarrow>
               Inr (filled_at + of_int (the (time_limit (triple_barrier tracked_order))) < current_timestamp))"

section \<open>The order registry and its queries (pk_strategy)\<close>

definition call_gateway :: "gateway \<Rightarrow> gateway_call \<Rightarrow> PkStrategy \<Rightarrow> (error \<times> PkStrategy) + (string \<times> PkStrategy)" where
  "call_gateway gw c s =
     (let s' = s\<lparr>gateway_calls := gateway_calls s @ [c]\<rparr>
      in case gw (gateway_calls s') of Inl e \<Rightarrow> Inl (e, s') | Inr r \<Rightarrow> Inr (r, s'))"

text \<open>
  \<^verbatim>\<open>amount_quote / entry_price\<close> on decimals raises when the price is zero.
\<close>

definition get_executor_config ::
  "PkStrategy \<Rightarrow> timestamp \<Rightarrow> TradeType \<Rightarrow> Decimal \<Rightarrow> Decimal \<Rightarrow> error + PositionExecutorConfig" where
  "get_executor_config s now sd entry_price' amount_quote =
     (if entry_price' = 0 then (if amount_quote = 0 then Inl InvalidOperation else Inl DivisionByZero)
      else Inr \<lparr>ec_timestamp = now,
                ec_connector_name = cfg_connector_name (config s),
                ec_trading_pair = cfg_trading_pair (config s),
                ec_side = sd,
                ec_entry_price = entry_price',
                ec_amount = amount_quote / entry_price',
                ec_leverage = leverage (config s)\<rparr>)"

definition find_tracked_order_of_id :: "string \<Rightarrow> PkStrategy \<Rightarrow> TrackedOrderDetails option" where
  "find_tracked_order_of_id oid s =
     (case filter (\<lambda>order. order_id order = oid) (tracked_orders s) of
        [] \<Rightarrow> None | order # _ \<Rightarrow> Some order)"

definition find_last_terminated_filled_order :: "TradeType \<Rightarrow> string \<Rightarrow> PkStrategy \<Rightarrow> TrackedOrderDetails option" where
  "find_last_terminated_filled_order sd r s =
     (case filter (\<lambda>order. side order = sd \<and> ref order = r \<and>
                           truthy (last_filled_at order) \<and> truthy (terminated_at order))
                  (tracked_orders s) of
        [] \<Rightarrow> None
      | order # orders \<Rightarrow> Some (max_from (\<lambda>order. the (terminated_at order)) order orders))"

definition get_active_tracked_orders :: "string option \<Rightarrow> PkStrategy \<Rightarrow> TrackedOrderDetails list" where
  "get_active_tracked_orders r s =
     (let active_tracked_orders =
            filter (\<lambda>order. created_at order \<noteq> 0 \<and> \<not> truthy (terminated_at order)) (tracked_orders s)
      in case r of
           None \<Rightarrow> active_tracked_orders
         | Some r' \<Rightarrow> if r' = [] then active_tracked_orders
                      else filter (\<lambda>order. ref order = r') active_tracked_orders)"

definition get_active_tracked_orders_by_side ::
  "string option \<Rightarrow> PkStrategy \<Rightarrow> TrackedOrderDetails list \<times> TrackedOrderDetails list" where
  "get_active_tracked_orders_by_side r s =
     (let active_orders = get_active_tracked_orders r s
      in (filter (\<lambda>order. side order = SELL) active_orders,
          filter (\<lambda>order. side order = BUY) active_orders))"

definition get_unfilled_tracked_orders_by_side ::
  "string option \<Rightarrow> PkStrategy \<Rightarrow> TrackedOrderDetails list \<times> TrackedOrderDetails list" where
  "get_unfilled_tracked_orders_by_side r s =
     (case get_active_tracked_orders_by_side r s of
        (active_sell_orders, active_buy_orders) \<Rightarrow>
          (filter (\<lambda>order. \<not> truthy (last_filled_at order)) active_sell_orders,
           filter (\<lambda>order. \<not> truthy (last_filled_at order)) active_buy_orders))"

definition get_filled_tracked_orders_by_side ::
  "string option \<Rightarrow> PkStrategy \<Rightarrow> TrackedOrderDetails list \<times> TrackedOrderDetails list" where
  "get_filled_tracked_orders_by_side r s =
     (case get_active_tracked_orders_by_side r s of
        (active_sell_orders, active_buy_orders) \<Rightarrow>
          (filter (\<lambda>order. truthy (last_filled_at order)) active_sell_orders,
           filter (\<lambda>order. truthy (last_filled_at order)) active_buy_orders))"

definition get_all_unfilled_tp_limit_orders :: "PkStrategy \<Rightarrow> TakeProfitLimitOrder list" where
  "get_all_unfilled_tp_limit_orders s =
     filter (\<lambda>order. \<not> truthy (tp_last_filled_at order)) (take_profit_limit_orders s)"

definition get_all_filled_tp_limit_orders :: "PkStrategy \<Rightarrow> TakeProfitLimitOrder list" where
  "get_all_filled_tp_limit_orders s =
     filter (\<lambda>order. truthy (tp_last_filled_at order)) (take_profit_limit_orders s)"

definition get_unfilled_tp_limit_orders :: "TrackedOrderDetails \<Rightarrow> PkStrategy \<Rightarrow> TakeProfitLimitOrder list" where
  "get_unfilled_tp_limit_orders tracked_order s =
     filter (\<lambda>order. order_id (tp_tracked_order order) = order_id tracked_order)
            (get_all_unfilled_tp_limit_orders s)"

section \<open>Creating, closing and cancelling orders\<close>

text \<open>
  The clock (\<^verbatim>\<open>get_market_data_provider_time\<close>) is the parameter \<open>now\<close>: one reading for
  the duration of one call.
\<close>

definition new_tracked_order ::
  "PositionExecutorConfig \<Rightarrow> TradeType \<Rightarrow> string \<Rightarrow> TripleBarrier \<Rightarrow> string \<Rightarrow> timestamp \<Rightarrow> TrackedOrderDetails" where
  "new_tracked_order executor_config sd oid tb r now =
     \<lparr>connector_name = ec_connector_name executor_config,
      trading_pair = ec_trading_pair executor_config,
      side = sd,
      order_id = oid,
      amount = ec_amount executor_config,
      entry_price = ec_entry_price executor_config,
      triple_barrier = tb,
      ref = r,
      created_at = now,
      filled_amount = 0,
      exchange_order_id = None,
      last_filled_at = None,
      last_filled_price = None,
      terminated_at = None,
      close_type = None\<rparr>"

definition create_individual_order ::
  "gateway \<Rightarrow> timestamp \<Rightarrow> PositionExecutorConfig \<Rightarrow> TripleBarrier \<Rightarrow> string \<Rightarrow> PkStrategy \<Rightarrow> outcome" where
  "create_individual_order gw now executor_config tb r s =
     (if ec_side executor_config = SELL then
        case call_gateway gw
               (Sell (ec_connector_name executor_config) (ec_trading_pair executor_config)
                     (ec_amount executor_config) (open_order_type tb) (ec_entry_price executor_config) NIL)
               (s\<lparr>is_a_sell_order_being_created := True\<rparr>) of
          Inl (e, s1) \<Rightarrow> Inl (e, s1)
        | Inr (oid, s1) \<Rightarrow>
            Inr (s1\<lparr>tracked_orders := tracked_orders s1 @ [new_tracked_order executor_config SELL oid tb r now],
                    is_a_sell_order_being_created := False\<rparr>)
      else
        case call_gateway gw
               (Buy (ec_connector_name executor_config) (ec_trading_pair executor_config)
                    (ec_amount executor_config) (open_order_type tb) (ec_entry_price executor_config) NIL)
               (s\<lparr>is_a_buy_order_being_created := True\<rparr>) of
          Inl (e, s1) \<Rightarrow> Inl (e, s1)
        | Inr (oid, s1) \<Rightarrow>
            Inr (s1\<lparr>tracked_orders := tracked_orders s1 @ [new_tracked_order executor_config BUY oid tb r now],
                    is_a_buy_order_being_created := False\<rparr>))"

definition create_order ::
  "gateway \<Rightarrow> timestamp \<Rightarrow> TradeType \<Rightarrow> Decimal \<Rightarrow> TripleBarrier \<Rightarrow> Decimal \<Rightarrow> string \<Rightarrow> PkStrategy \<Rightarrow> outcome" where
  "create_order gw now sd entry_price' tb amount_quote r s =
     (case get_executor_config s now sd entry_price' amount_quote of
        Inl e \<Rightarrow> Inl (e, s)
      | Inr executor_config \<Rightarrow> create_individual_order gw now executor_config tb r s)"

definition new_tp_limit_order ::
  "string \<Rightarrow> TrackedOrderDetails \<Rightarrow> Decimal \<Rightarrow> Decimal \<Rightarrow> timestamp \<Rightarrow> TakeProfitLimitOrder" where
  "new_tp_limit_order oid tracked_order amount' entry_price' now =
     \<lparr>tp_order_id = oid,
      tp_tracked_order = tracked_order,
      tp_amount = amount',
      tp_entry_price = entry_price',
      tp_created_at = now,
      tp_filled_amount = 0,
      tp_last_filled_at = None,
      tp_last_filled_price = None\<rparr>"

definition create_tp_limit_order ::
  "gateway \<Rightarrow> timestamp \<Rightarrow> TrackedOrderDetails \<Rightarrow> Decimal \<Rightarrow> Decimal \<Rightarrow> PkStrategy \<Rightarrow> outcome" where
  "create_tp_limit_order gw now tracked_order amount' entry_price' s =
     (case get_executor_config s now (if side tracked_order = BUY then SELL else BUY) entry_price' amount' of
        Inl e \<Rightarrow> Inl (e, s)
      | Inr executor_config \<Rightarrow>
          (case call_gateway gw
                  (if ec_side executor_config = SELL
                   then Sell (ec_connector_name executor_config) (trading_pair tracked_order)
                             amount' LIMIT entry_price' CLOSE
                   else Buy (ec_connector_name executor_config) (trading_pair tracked_order)
                            amount' LIMIT entry_price' CLOSE) s of
             Inl (e, s1) \<Rightarrow> Inl (e, s1)
           | Inr (oid, s1) \<Rightarrow>
               Inr (s1\<lparr>take_profit_limit_orders := take_profit_limit_orders s1 @
                          [new_tp_limit_order oid tracked_order amount' entry_price' now]\<rparr>)))"

text \<open>
  Rounding a rational to the nearest integer, ties to the even one; the number of digits of a
  positive integer in base \<open>b\<close>; and the exponent \<open>e\<close> with \<open>b ^ e \<le> x < b ^ (e + 1)\<close> of a
  positive rational \<open>x\<close>.
\<close>

definition pow_int :: "rat \<Rightarrow> int \<Rightarrow> rat" where
  "pow_int b e = (if 0 \<le> e then b ^ nat e else 1 / b ^ nat (- e))"

definition round_half_even :: "rat \<Rightarrow> int" where
  "round_half_even x =
     (let n = \<lfloor>x\<rfloor>; d = x - of_int n
      in if d < 1 / 2 then n else if 1 / 2 < d then n + 1 else if even n then n else n + 1)"

function digit_count :: "int \<Rightarrow> int \<Rightarrow> int" where
  "digit_count b n = (if n \<le> 0 \<or> b < 2 then 0 else 1 + digit_count b (n div b))"
  by pat_completeness auto
termination
proof (relation "measure (\<lambda>(b, n). nat n)")
  show "wf (measure (\<lambda>(b, n). nat n))" by simp
next
  fix b n :: int
  assume "\<not> (n \<le> 0 \<or> b < 2)"
  then have "0 < n" "1 < b" by auto
  then have "n div b < n" by (rule int_div_less_self)
  then show "((b, n div b), (b, n)) \<in> measure (\<lambda>(b, n). nat n)"
    using \<open>0 < n\<close> by simp
qed

definition scale_exponent :: "int \<Rightarrow> rat \<Rightarrow> int" where
  "scale_exponent b x =
     (if 1 \<le> x then digit_count b \<lfloor>x\<rfloor> - 1
      else - digit_count b (\<lceil>1 / x\<rceil> - 1))"

text \<open>
  The double nearest to a rational (53 significant bits, ties to even, subnormal below
  \<open>2 ^ - 1022\<close>), as a rational; its magnitude is \<open>2 ^ 1024\<close> or more exactly when the
  rounding overflows.
\<close>

definition round_to_double :: "rat \<Rightarrow> rat" where
  "round_to_double x =
     (if x = 0 then 0
      else let ulp = pow_int 2 (max (scale_exponent 2 \<bar>x\<bar>) (- 1022) - 52)
           in sgn x * of_int (round_half_even (\<bar>x\<bar> / ulp)) * ulp)"

text \<open>
  \<^verbatim>\<open>a / b\<close> on two ints: the correctly rounded double, or an error.
\<close>

definition float_true_div :: "int \<Rightarrow> int \<Rightarrow> error + rat" where
  "float_true_div a b =
     (if b = 0 then Inl ZeroDivisionError
      else let r = round_to_double (of_int a / of_int b)
           in if 2 ^ 1024 \<le> \<bar>r\<bar> then Inl OverflowError else Inr r)"

text \<open>
  The result of a decimal operation in the default context: 28 significant digits, ties to
  even (the bounds on the decimal exponent are not modelled).
\<close>

definition round_to_context :: "rat \<Rightarrow> rat" where
  "round_to_context x =
     (if x = 0 then 0
      else let ulp = pow_int 10 (scale_exponent 10 \<bar>x\<bar> - 27)
           in sgn x * of_int (round_half_even (\<bar>x\<bar> / ulp)) * ulp)"

text \<open>
  \<^verbatim>\<open>self.get_best_bid() * Decimal(1 - bps / 10000)\<close> and
  \<^verbatim>\<open>self.get_best_ask() * Decimal(1 + bps / 10000)\<close>, where \<open>f\<close> is the double
  \<^verbatim>\<open>bps / 10000\<close>: the int 1 becomes a double, the difference and the sum are rounded
  to a double, \<^verbatim>\<open>Decimal\<close> converts that double exactly, and the decimal product is
  rounded to the context.
\<close>

definition close_price_sell :: "MarketData \<Rightarrow> rat \<Rightarrow> Decimal" where
  "close_price_sell md f = round_to_context (best_bid md * round_to_double (1 - f))"

definition close_price_buy :: "MarketData \<Rightarrow> rat \<Rightarrow> Decimal" where
  "close_price_buy md f = round_to_context (best_ask md * round_to_double (1 + f))"

definition terminate :: "timestamp \<Rightarrow> CloseType \<Rightarrow> TrackedOrderDetails \<Rightarrow> TrackedOrderDetails" where
  "terminate t ct order = order\<lparr>terminated_at := Some t, close_type := Some ct\<rparr>"

definition close_filled_order ::
  "gateway \<Rightarrow> MarketData \<Rightarrow> timestamp \<Rightarrow> TrackedOrderDetails \<Rightarrow> OrderType \<Rightarrow> CloseType \<Rightarrow> PkStrategy \<Rightarrow> outcome" where
  "close_filled_order gw md now filled_order market_or_limit ct s =
     (case float_true_div (limit_take_profit_price_delta_bps (config s)) 10000 of
        Inl e \<Rightarrow> Inl (e, s)
      | Inr f \<Rightarrow>
          (case call_gateway gw
                  (if side filled_order = SELL
                   then Buy (connector_name filled_order) (trading_pair filled_order)
                            (filled_amount filled_order) market_or_limit (close_price_sell md f) CLOSE
                   else Sell (connector_name filled_order) (trading_pair filled_order)
                             (filled_amount filled_order) market_or_limit (close_price_buy md f) CLOSE) s of
             Inl (e, s1) \<Rightarrow> Inl (e, s1)
           | Inr (oid, s1) \<Rightarrow>
               Inr (s1\<lparr>tracked_orders :=
                         update_first (\<lambda>order. order_id order = order_id filled_order) (terminate now ct)
                           (tracked_orders s1)\<rparr>)))"

definition cancel_unfilled_order :: "gateway \<Rightarrow> TrackedOrderDetails \<Rightarrow> PkStrategy \<Rightarrow> outcome" where
  "cancel_unfilled_order gw tracked_order s =
     (case call_gateway gw
             (Cancel (connector_name tracked_order) (trading_pair tracked_order) (order_id tracked_order)) s of
        Inl (e, s1) \<Rightarrow> Inl (e, s1)
      | Inr (r, s1) \<Rightarrow> Inr s1)"

definition cancel_tp_limit_order ::
  "gateway \<Rightarrow> TrackedOrderDetails \<Rightarrow> TakeProfitLimitOrder \<Rightarrow> PkStrategy \<Rightarrow> outcome" where
  "cancel_tp_limit_order gw filled_order tp_limit_order s =
     (case call_gateway gw
             (Cancel (connector_name filled_order) (trading_pair filled_order) (tp_order_id tp_limit_order)) s of
        Inl (e, s1) \<Rightarrow> Inl (e, s1)
      | Inr (r, s1) \<Rightarrow> Inr s1)"

definition cancel_take_profit_for_order :: "gateway \<Rightarrow> TrackedOrderDetails \<Rightarrow> PkStrategy \<Rightarrow> outcome" where
  "cancel_take_profit_for_order gw filled_order s =
     for_each (cancel_tp_limit_order gw filled_order) (get_unfilled_tp_limit_orders filled_order s) s"

definition close_filled_orders ::
  "gateway \<Rightarrow> MarketData \<Rightarrow> timestamp \<Rightarrow> TrackedOrderDetails list \<Rightarrow> OrderType \<Rightarrow> CloseType \<Rightarrow> PkStrategy \<Rightarrow> outcome" where
  "close_filled_orders gw md now filled_orders market_or_limit ct s =
     for_each (\<lambda>filled_order s'.
                 then_do (close_filled_order gw md now filled_order market_or_limit ct s')
                         (cancel_take_profit_for_order gw filled_order))
              filled_orders s"

section \<open>Event handlers\<close>

definition did_create_sell_order :: "OrderCreatedEvent \<Rightarrow> PkStrategy \<Rightarrow> PkStrategy" where
  "did_create_sell_order created_event s =
     (if is_close_or_absent (ce_position created_event) then s
      else s\<lparr>tracked_orders :=
               update_first (\<lambda>tracked_order. order_id tracked_order = ce_order_id created_event)
                 (\<lambda>tracked_order. tracked_order\<lparr>exchange_order_id := ce_exchange_order_id created_event\<rparr>)
                 (tracked_orders s)\<rparr>)"

definition did_create_buy_order :: "OrderCreatedEvent \<Rightarrow> PkStrategy \<Rightarrow> PkStrategy" where
  "did_create_buy_order created_event s =
     (if is_close_or_absent (ce_position created_event) then s
      else s\<lparr>tracked_orders :=
               update_first (\<lambda>tracked_order. order_id tracked_order = ce_order_id created_event)
                 (\<lambda>tracked_order. tracked_order\<lparr>exchange_order_id := ce_exchange_order_id created_event\<rparr>)
                 (tracked_orders s)\<rparr>)"

text \<open>The assignments of the take-profit branch of \<^verbatim>\<open>did_fill_order\<close>.\<close>

definition fill_tp_limit_order :: "OrderFilledEvent \<Rightarrow> TakeProfitLimitOrder \<Rightarrow> TakeProfitLimitOrder" where
  "fill_tp_limit_order filled_event take_profit_limit_order =
     take_profit_limit_order
       \<lparr>tp_filled_amount := tp_filled_amount take_profit_limit_order + fe_amount filled_event,
        tp_last_filled_at := Some (fe_timestamp filled_event),
        tp_last_filled_price := Some (fe_price filled_event)\<rparr>"

definition reduce_tracked_order :: "OrderFilledEvent \<Rightarrow> TrackedOrderDetails \<Rightarrow> TrackedOrderDetails" where
  "reduce_tracked_order filled_event tracked_order =
     (let reduced = tracked_order\<lparr>filled_amount := filled_amount tracked_order - fe_amount filled_event\<rparr>
      in if filled_amount reduced = 0
         then reduced\<lparr>terminated_at := Some (fe_timestamp filled_event), close_type := Some TAKE_PROFIT\<rparr>
         else reduced)"

text \<open>The assignments of the entry branch.\<close>

definition fill_tracked_order :: "OrderFilledEvent \<Rightarrow> TrackedOrderDetails \<Rightarrow> TrackedOrderDetails" where
  "fill_tracked_order filled_event tracked_order =
     tracked_order
       \<lparr>filled_amount := filled_amount tracked_order + fe_amount filled_event,
        last_filled_at := Some (fe_timestamp filled_event),
        last_filled_price := Some (fe_price filled_event)\<rparr>"

definition did_fill_order :: "gateway \<Rightarrow> timestamp \<Rightarrow> OrderFilledEvent \<Rightarrow> PkStrategy \<Rightarrow> outcome" where
  "did_fill_order gw now filled_event s =
     (if is_close_or_absent (fe_position filled_event) then
        (case find (\<lambda>order. tp_order_id order = fe_order_id filled_event) (take_profit_limit_orders s) of
           None \<Rightarrow> Inr s
         | Some take_profit_limit_order \<Rightarrow>
             Inr (s\<lparr>take_profit_limit_orders :=
                      update_first (\<lambda>order. tp_order_id order = fe_order_id filled_event)
                        (fill_tp_limit_order filled_event) (take_profit_limit_orders s),
                    tracked_orders :=
                      update_first
                        (\<lambda>order. order_id order = order_id (tp_tracked_order take_profit_limit_order))
                        (reduce_tracked_order filled_event) (tracked_orders s)\<rparr>))
      else
        (case find (\<lambda>order. order_id order = fe_order_id filled_event) (tracked_orders s) of
           None \<Rightarrow> Inr s
         | Some tracked_order \<Rightarrow>
             (let s1 = s\<lparr>tracked_orders :=
                           update_first (\<lambda>order. order_id order = fe_order_id filled_event)
                             (fill_tracked_order filled_event) (tracked_orders s)\<rparr>;
                  tb = triple_barrier tracked_order
              in if truthy (take_profit_delta tb) \<and> take_profit_order_type tb = LIMIT
                 then create_tp_limit_order gw now (fill_tracked_order filled_event tracked_order)
                        (fe_amount filled_event)
                        (compute_take_profit_price (side tracked_order) (fe_price filled_event)
                           (the (take_profit_delta tb)))
                        s1
                 else Inr s1)))"

text \<open>
  \<^verbatim>\<open>list.remove\<close> deletes the first element equal to the one the loop has found.
\<close>

definition did_cancel_order :: "timestamp \<Rightarrow> OrderCancelledEvent \<Rightarrow> PkStrategy \<Rightarrow> PkStrategy" where
  "did_cancel_order now cancelled_event s =
     s\<lparr>tracked_orders :=
         update_first (\<lambda>order. order_id order = ca_order_id cancelled_event) (terminate now EXPIRED)
           (tracked_orders s),
       take_profit_limit_orders :=
         (case find (\<lambda>order. tp_order_id order = ca_order_id cancelled_event) (take_profit_limit_orders s) of
            None \<Rightarrow> take_profit_limit_orders s
          | Some order \<Rightarrow> remove1 order (take_profit_limit_orders s))\<rparr>"

section \<open>The creation guard and the periodic check\<close>

definition can_create_order :: "TradeType \<Rightarrow> Decimal \<Rightarrow> string \<Rightarrow> int \<Rightarrow> timestamp \<Rightarrow> PkStrategy \<Rightarrow> bool" where
  "can_create_order sd amount_quote r cooldown_time_min now s =
     (if amount_quote = 0 then False
      else if sd = SELL \<and> is_a_sell_order_being_created s then False
      else if sd = BUY \<and> is_a_buy_order_being_created s then False
      else case find_last_terminated_filled_order sd r s of
             None \<Rightarrow> True
           | Some last_terminated_filled_order \<Rightarrow>
               if the (terminated_at last_terminated_filled_order) + of_int (cooldown_time_min * 60) > now
               then False else True)"

definition check_unfilled_orders :: "gateway \<Rightarrow> timestamp \<Rightarrow> PkStrategy \<Rightarrow> outcome" where
  "check_unfilled_orders gw now s =
     (if unfilled_order_expiration (config s) = 0 then Inr s
      else case get_unfilled_tracked_orders_by_side None s of
             (unfilled_sell_orders, unfilled_buy_orders) \<Rightarrow>
               for_each (\<lambda>unfilled_order s'.
                           if has_unfilled_order_expired unfilled_order (unfilled_order_expiration (config s)) now
                           then cancel_unfilled_order gw unfilled_order s' else Inr s')
                        (unfilled_sell_orders @ unfilled_buy_orders) s)"

text \<open>
  The body of the loop of \<^verbatim>\<open>check_trading_orders\<close>, for one filled order. The loop runs over
  the orders that were active and filled when it started; the body reads fields of
  \<open>filled_order\<close> that the loop itself never assigns.
\<close>

definition check_trading_order ::
  "gateway \<Rightarrow> MarketData \<Rightarrow> timestamp \<Rightarrow> TrackedOrderDetails \<Rightarrow> PkStrategy \<Rightarrow> outcome" where
  "check_trading_order gw md now filled_order s =
     (if has_current_price_reached_stop_loss filled_order (mid_price md) then
        then_do (close_filled_order gw md now filled_order MARKET STOP_LOSS s)
                (cancel_take_profit_for_order gw filled_order)
      else if length (get_unfilled_tp_limit_orders filled_order s) = 0 \<and>
              has_current_price_reached_take_profit filled_order (mid_price md) then
        close_filled_order gw md now filled_order
          (take_profit_order_type (triple_barrier filled_order)) TAKE_PROFIT s
      else
        case has_filled_order_reached_time_limit filled_order now of
          Inl e \<Rightarrow> Inl (e, s)
        | Inr reached \<Rightarrow>
            if reached then
              then_do (close_filled_order gw md now filled_order
                         (time_limit_order_type (triple_barrier filled_order)) TIME_LIMIT s)
                      (cancel_take_profit_for_order gw filled_order)
            else Inr s)"

definition check_trading_orders :: "gateway \<Rightarrow> MarketData \<Rightarrow> timestamp \<Rightarrow> PkStrategy \<Rightarrow> outcome" where
  "check_trading_orders gw md now s =
     (case get_filled_tracked_orders_by_side None s of
        (filled_sell_orders, filled_buy_orders) \<Rightarrow>
          for_each (check_trading_order gw md now) (filled_sell_orders @ filled_buy_orders) s)"

definition check_orders :: "gateway \<Rightarrow> MarketData \<Rightarrow> timestamp \<Rightarrow> PkStrategy \<Rightarrow> outcome" where
  "check_orders gw md now s = then_do (check_unfilled_orders gw now s) (check_trading_orders gw md now)"

section \<open>Sequences of operations\<close>

text \<open>
  The operations that reach the registries, each with what it reads from outside (the
  exchange, the market data, the clock, the event). A raised error is caught by the caller of
  the strategy, which keeps running on the state the operation has left.
\<close>

datatype operation =
    Create_order gateway timestamp TradeType Decimal TripleBarrier Decimal string
  | Close_filled_order gateway MarketData timestamp TrackedOrderDetails OrderType CloseType
  | Did_create_sell_order OrderCreatedEvent
  | Did_create_buy_order OrderCreatedEvent
  | Did_fill_order gateway timestamp OrderFilledEvent
  | Did_cancel_order timestamp OrderCancelledEvent
  | Check_orders gateway MarketData timestamp

fun perform :: "operation \<Rightarrow> PkStrategy \<Rightarrow> PkStrategy" where
  "perform (Create_order gw now sd entry_price' tb amount_quote r) s =
     state_of (create_order gw now sd entry_price' tb amount_quote r s)"
| "perform (Close_filled_order gw md now filled_order market_or_limit ct) s =
     state_of (close_filled_order gw md now filled_order market_or_limit ct s)"
| "perform (Did_create_sell_order created_event) s = did_create_sell_order created_event s"
| "perform (Did_create_buy_order created_event) s = did_create_buy_order created_event s"
| "perform (Did_fill_order gw now filled_event) s = state_of (did_fill_order gw now filled_event s)"
| "perform (Did_cancel_order now cancelled_event) s = did_cancel_order now cancelled_event s"
| "perform (Check_orders gw md now) s = state_of (check_orders gw md now s)"

primrec perform_all :: "operation list \<Rightarrow> PkStrategy \<Rightarrow> PkStrategy" where
  "perform_all [] s = s"
| "perform_all (operation # operations) s = perform_all operations (perform operation s)"

text \<open>
  How a registry of tracked orders may evolve: orders are only appended, an order keeps its
  id, and a \<open>terminated_at\<close> that is set stays set.
\<close>

definition stays_terminated :: "TrackedOrderDetails list \<Rightarrow> TrackedOrderDetails list \<Rightarrow> bool" where
  "stays_terminated before after =
     (length before \<le> length after \<and>
      (\<forall>i<length before. order_id (after ! i) = order_id (before ! i) \<and>
                          (terminated_at (before ! i) \<noteq> None \<longrightarrow> terminated_at (after ! i) \<noteq> None)))"

text \<open>
  A change of the registry that keeps every order id in its place and leaves alone every
  order whose id is outside \<open>ids\<close>.
\<close>

definition changes_only :: "string set \<Rightarrow> TrackedOrderDetails list \<Rightarrow> TrackedOrderDetails list \<Rightarrow> bool" where
  "changes_only ids before after =
     (map order_id after = map order_id before \<and>
      (\<forall>i<length before. order_id (before ! i) \<notin> ids \<longrightarrow> after ! i = before ! i))"

text \<open>The exchange calls that reduce a position: a buy or a sell with position action CLOSE.\<close>

definition is_close_call :: "gateway_call \<Rightarrow> bool" where
  "is_close_call c =
     (case c of Buy cn pair a ot p pa \<Rightarrow> pa = CLOSE
              | Sell cn pair a ot p pa \<Rightarrow> pa = CLOSE
              | Cancel cn pair oid \<Rightarrow> False)"

definition close_calls :: "PkStrategy \<Rightarrow> gateway_call list" where
  "close_calls s = filter is_close_call (gateway_calls s)"

text \<open>
  The exchange call that \<open>close_filled_order\<close> makes, by name; \<open>f\<close> is the double
  \<^verbatim>\<open>bps / 10000\<close>.
\<close>

definition close_call :: "rat \<Rightarrow> MarketData \<Rightarrow> TrackedOrderDetails \<Rightarrow> OrderType \<Rightarrow> gateway_call" where
  "close_call f md filled_order market_or_limit =
     (if side filled_order = SELL
      then Buy (connector_name filled_order) (trading_pair filled_order) (filled_amount filled_order)
               market_or_limit (close_price_sell md f) CLOSE
      else Sell (connector_name filled_order) (trading_pair filled_order) (filled_amount filled_order)
                market_or_limit (close_price_buy md f) CLOSE)"

text \<open>The orders the loop of \<open>check_trading_orders\<close> runs over: active and filled.\<close>

definition is_active_filled :: "TrackedOrderDetails \<Rightarrow> bool" where
  "is_active_filled order =
     (created_at order \<noteq> 0 \<and> \<not> truthy (terminated_at order) \<and> truthy (last_filled_at order))"

section \<open>The exit of one order, as the specification words it\<close>

text \<open>
  The specification of the periodic check, not the code: for one active filled order the
  exits are tried in the order stop-loss, take-profit (only when no unfilled take-profit
  limit order exists for the order), time limit, and the first that applies is the only one
  taken. An exit is the order type of the closing command, the close type recorded, and
  whether the unfilled take-profit orders of the order are cancelled after the close.
\<close>

definition time_limit_reached :: "TrackedOrderDetails \<Rightarrow> timestamp \<Rightarrow> bool" where
  "time_limit_reached order now =
     (case time_limit (triple_barrier order) of
        None \<Rightarrow> False
      | Some limit \<Rightarrow>
          (case last_filled_at order of
             None \<Rightarrow> False
           | Some filled_at \<Rightarrow> limit \<noteq> 0 \<and> filled_at + of_int limit < now))"

definition exit_action ::
  "PkStrategy \<Rightarrow> MarketData \<Rightarrow> timestamp \<Rightarrow> TrackedOrderDetails \<Rightarrow> (OrderType \<times> CloseType \<times> bool) option" where
  "exit_action s md now order =
     (if has_current_price_reached_stop_loss order (mid_price md)
      then Some (MARKET, STOP_LOSS, True)
      else if get_unfilled_tp_limit_orders order s = [] \<and>
              has_current_price_reached_take_profit order (mid_price md)
      then Some (take_profit_order_type (triple_barrier order), TAKE_PROFIT, False)
      else if time_limit_reached order now
      then Some (time_limit_order_type (triple_barrier order), TIME_LIMIT, True)
      else None)"

text \<open>The exchange calls of that exit: one closing call at most, then the cancellations.\<close>

definition exit_calls ::
  "rat \<Rightarrow> PkStrategy \<Rightarrow> MarketData \<Rightarrow> timestamp \<Rightarrow> TrackedOrderDetails \<Rightarrow> gateway_call list" where
  "exit_calls f s md now order =
     (case exit_action s md now order of
        None \<Rightarrow> []
      | Some (market_or_limit, ct, cancel) \<Rightarrow>
          close_call f md order market_or_limit #
          (if cancel
           then map (\<lambda>tp. Cancel (connector_name order) (trading_pair order) (tp_order_id tp))
                    (get_unfilled_tp_limit_orders order s)
           else []))"

text \<open>The order after that exit.\<close>

definition apply_exit :: "PkStrategy \<Rightarrow> MarketData \<Rightarrow> timestamp \<Rightarrow> TrackedOrderDetails \<Rightarrow> TrackedOrderDetails" where
  "apply_exit s md now order =
     (case exit_action s md now order of
        None \<Rightarrow> order
      | Some (market_or_limit, ct, cancel) \<Rightarrow> order\<lparr>terminated_at := Some now, close_type := Some ct\<rparr>)"

text \<open>The registry after that exit: the first tracked order with the order's id is terminated.\<close>

definition record_exit ::
  "PkStrategy \<Rightarrow> MarketData \<Rightarrow> timestamp \<Rightarrow> TrackedOrderDetails \<Rightarrow> TrackedOrderDetails list \<Rightarrow> TrackedOrderDetails list" where
  "record_exit s md now order orders =
     (case exit_action s md now order of
        None \<Rightarrow> orders
      | Some (market_or_limit, ct, cancel) \<Rightarrow>
          update_first (\<lambda>tracked_order. order_id tracked_order = order_id order) (terminate now ct) orders)"

text \<open>
  The cancellations of the first pass of the periodic check: every active unfilled order older
  than the configured expiration, sells first.
\<close>

definition expiry_calls :: "PkStrategy \<Rightarrow> timestamp \<Rightarrow> gateway_call list" where
  "expiry_calls s now =
     (if unfilled_order_expiration (config s) = 0 then []
      else map (\<lambda>order. Cancel (connector_name order) (trading_pair order) (order_id order))
               (filter (\<lambda>order. has_unfilled_order_expired order (unfilled_order_expiration (config s)) now)
                       (fst (get_unfilled_tracked_orders_by_side None s) @
                        snd (get_unfilled_tracked_orders_by_side None s))))"

section \<open>Concrete orders and strategies used to exercise the theorems\<close>

definition example_config :: ExcaliburConfig where
  "example_config =
     \<lparr>cfg_connector_name = ''hyperliquid_perpetual'', cfg_trading_pair = ''BTC-USD'', leverage = 2,
      unfilled_order_expiration = 60, limit_take_profit_price_delta_bps = 0\<rparr>"

definition example_barrier :: TripleBarrier where
  "example_barrier =
     \<lparr>stop_loss_delta = Some (2 / 100), take_profit_delta = Some (3 / 100), time_limit = Some 600,
      open_order_type = LIMIT, take_profit_order_type = LIMIT, time_limit_order_type = MARKET\<rparr>"

text \<open>An active order of two units, entered and filled at price 100.\<close>

definition example_order :: "TradeType \<Rightarrow> string \<Rightarrow> TrackedOrderDetails" where
  "example_order sd oid =
     \<lparr>connector_name = ''hyperliquid_perpetual'', trading_pair = ''BTC-USD'', side = sd, order_id = oid,
      amount = 2, entry_price = 100, triple_barrier = example_barrier, ref = ''R'', created_at = 1000,
      filled_amount = 2, exchange_order_id = Some ''x'', last_filled_at = Some 1010,
      last_filled_price = Some 100, terminated_at = None, close_type = None\<rparr>"

definition example_take_profit :: "string \<Rightarrow> TrackedOrderDetails \<Rightarrow> TakeProfitLimitOrder" where
  "example_take_profit oid parent =
     \<lparr>tp_order_id = oid, tp_tracked_order = parent, tp_amount = 2, tp_entry_price = 97,
      tp_created_at = 1010, tp_filled_amount = 0, tp_last_filled_at = None, tp_last_filled_price = None\<rparr>"

definition example_strategy :: "TrackedOrderDetails list \<Rightarrow> TakeProfitLimitOrder list \<Rightarrow> PkStrategy" where
  "example_strategy orders tp_orders =
     \<lparr>config = example_config, is_a_sell_order_being_created = False, is_a_buy_order_being_created = False,
      tracked_orders = orders, take_profit_limit_orders = tp_orders, gateway_calls = []\<rparr>"

definition example_executor_config :: "TradeType \<Rightarrow> PositionExecutorConfig" where
  "example_executor_config sd =
     \<lparr>ec_timestamp = 1000, ec_connector_name = ''hyperliquid_perpetual'', ec_trading_pair = ''BTC-USD'',
      ec_side = sd, ec_entry_price = 100, ec_amount = 2, ec_leverage = 2\<rparr>"

definition example_market :: MarketData where
  "example_market = \<lparr>mid_price = 100, best_bid = 99, best_ask = 101\<rparr>"

text \<open>An exchange that accepts every call, and one that rejects every call.\<close>

definition accepting_gateway :: gateway where
  "accepting_gateway calls = Inr (replicate (length calls) (CHR ''o''))"

definition rejecting_gateway :: gateway where
  "rejecting_gateway calls = Inl (GatewayError ''rejected'')"

definition constant_gateway :: "string \<Rightarrow> gateway" where
  "constant_gateway oid calls = Inr oid"

definition example_fill :: "string \<Rightarrow> Decimal \<Rightarrow> Decimal \<Rightarrow> timestamp \<Rightarrow> string option \<Rightarrow> OrderFilledEvent" where
  "example_fill oid amount' price t position =
     \<lparr>fe_order_id = oid, fe_amount = amount', fe_price = price, fe_timestamp = t, fe_position = position\<rparr>"

section \<open>Loops over the registries\<close>

lemma update_first_no_match: "\<forall>x\<in>set xs. \<not> P x \<Longrightarrow> update_first P f xs = xs"
  by (induction xs) auto

lemma update_first_length [simp]: "length (update_first P f xs) = length xs"
  by (induction xs) auto

lemma update_first_at:
  "i < length xs \<Longrightarrow> P (xs ! i) \<Longrightarrow> \<forall>k<i. \<not> P (xs ! k) \<Longrightarrow> update_first P f xs = xs[i := f (xs ! i)]"
proof (induction xs arbitrary: i)
  case Nil
  then show ?case by simp
next
  case (Cons x xs)
  show ?case
  proof (cases i)
    case 0
    with Cons.prems show ?thesis by simp
  next
    case (Suc j)
    with Cons.prems have "\<not> P x" by auto
    moreover have "update_first P f xs = xs[j := f (xs ! j)]"
      using Cons.prems Suc by (intro Cons.IH) auto
    ultimately show ?thesis using Suc by simp
  qed
qed

lemma find_at:
  "i < length xs \<Longrightarrow> P (xs ! i) \<Longrightarrow> \<forall>k<i. \<not> P (xs ! k) \<Longrightarrow> find P xs = Some (xs ! i)"
proof (induction xs arbitrary: i)
  case Nil
  then show ?case by simp
next
  case (Cons x xs)
  show ?case
  proof (cases i)
    case 0
    with Cons.prems show ?thesis by simp
  next
    case (Suc j)
    with Cons.prems have "\<not> P x" by auto
    moreover have "find P xs = Some (xs ! j)"
      using Cons.prems Suc by (intro Cons.IH) auto
    ultimately show ?thesis using Suc by simp
  qed
qed

lemma find_no_match: "\<forall>x\<in>set xs. \<not> P x \<Longrightarrow> find P xs = None"
  by (induction xs) auto

lemma max_from_mem: "max_from k b xs \<in> set (b # xs)"
  by (induction xs arbitrary: b) (auto split: if_splits)

lemma max_from_ge_start: "k b \<le> k (max_from k b xs)"
proof (induction xs arbitrary: b)
  case Nil
  then show ?case by simp
next
  case (Cons x xs)
  have "k b \<le> k (if k b < k x then x else b)" by simp
  also have "\<dots> \<le> k (max_from k (if k b < k x then x else b) xs)" by (rule Cons.IH)
  finally show ?case by simp
qed

lemma max_from_ge: "x \<in> set (b # xs) \<Longrightarrow> k x \<le> k (max_from k b xs)"
proof (induction xs arbitrary: b)
  case Nil
  then show ?case by simp
next
  case (Cons y ys)
  let ?b = "if k b < k y then y else b"
  from Cons.prems consider "x = b" | "x = y" | "x \<in> set ys" by auto
  then show ?case
  proof cases
    case 1
    have "k b \<le> k ?b" by simp
    also have "\<dots> \<le> k (max_from k ?b ys)" by (rule max_from_ge_start)
    finally show ?thesis using 1 by simp
  next
    case 2
    have "k y \<le> k ?b" by simp
    also have "\<dots> \<le> k (max_from k ?b ys)" by (rule max_from_ge_start)
    finally show ?thesis using 2 by simp
  next
    case 3
    then have "k x \<le> k (max_from k ?b ys)" by (intro Cons.IH) simp
    then show ?thesis by simp
  qed
qed

section \<open>Exit evaluation\<close>

text \<open>
  C9. The stop-loss test is false without a delta; otherwise the stop-loss price is taken from
  \<open>last_filled_price\<close> when there is one and from \<open>entry_price\<close> when it is absent, a sell
  triggers strictly above \<open>ref_price * (1 + delta)\<close> and a buy strictly below
  \<open>ref_price * (1 - delta)\<close>. A sell filled at 100 with delta 0.02 has stop-loss price 102:
  it triggers at 102.0001 and not at 101.9999.
\<close>

theorem stop_loss_crossing:
  "has_current_price_reached_stop_loss tracked_order current_price =
     (case stop_loss_delta (triple_barrier tracked_order) of
        None \<Rightarrow> False
      | Some delta \<Rightarrow>
          delta \<noteq> 0 \<and>
          (let ref_price = (case last_filled_price tracked_order of
                              None \<Rightarrow> entry_price tracked_order
                            | Some p \<Rightarrow> if p = 0 then entry_price tracked_order else p)
           in if side tracked_order = SELL then current_price > ref_price * (1 + delta)
              else current_price < ref_price * (1 - delta)))
   \<and> (side tracked_order = SELL \<and> last_filled_price tracked_order = Some 100 \<and>
      stop_loss_delta (triple_barrier tracked_order) = Some (2 / 100)
      \<longrightarrow> has_current_price_reached_stop_loss tracked_order (1020001 / 10000) \<and>
          \<not> has_current_price_reached_stop_loss tracked_order (1019999 / 10000))"
  by (auto simp: has_current_price_reached_stop_loss_def compute_stop_loss_price_def ref_price_of_def
                 truthy_def Let_def split: option.splits)

theorem stop_loss_crossing_witness:
  "side (example_order SELL ''a'') = SELL
   \<and> last_filled_price (example_order SELL ''a'') = Some 100
   \<and> stop_loss_delta (triple_barrier (example_order SELL ''a'')) = Some (2 / 100)
   \<and> has_current_price_reached_stop_loss (example_order SELL ''a'') (1020001 / 10000)
   \<and> \<not> has_current_price_reached_stop_loss (example_order SELL ''a'') (1019999 / 10000)"
proof -
  have h: "side (example_order SELL ''a'') = SELL \<and> last_filled_price (example_order SELL ''a'') = Some 100 \<and>
           stop_loss_delta (triple_barrier (example_order SELL ''a'')) = Some (2 / 100)"
    by (simp add: example_order_def example_barrier_def)
  show ?thesis
    using h stop_loss_crossing [of "example_order SELL ''a''" 0] by blast
qed

text \<open>
  C10. A delta that is present and equal to zero disables its barrier, as an absent delta does:
  with \<open>stop_loss_delta = 0\<close> the stop-loss test is false at every price, and with
  \<open>take_profit_delta = 0\<close> the take-profit test is false at every price.
\<close>

theorem zero_delta_disables_barrier:
  "(stop_loss_delta (triple_barrier tracked_order) = Some 0
      \<longrightarrow> \<not> has_current_price_reached_stop_loss tracked_order current_price)
   \<and> (take_profit_delta (triple_barrier tracked_order) = Some 0
      \<longrightarrow> \<not> has_current_price_reached_take_profit tracked_order current_price)"
  by (simp add: has_current_price_reached_stop_loss_def has_current_price_reached_take_profit_def truthy_def)

theorem zero_delta_disables_barrier_witness:
  "stop_loss_delta (triple_barrier ((example_order SELL ''a'')
       \<lparr>triple_barrier := example_barrier\<lparr>stop_loss_delta := Some 0, take_profit_delta := Some 0\<rparr>\<rparr>)) = Some 0
   \<and> take_profit_delta (triple_barrier ((example_order SELL ''a'')
       \<lparr>triple_barrier := example_barrier\<lparr>stop_loss_delta := Some 0, take_profit_delta := Some 0\<rparr>\<rparr>)) = Some 0
   \<and> \<not> has_current_price_reached_stop_loss ((example_order SELL ''a'')
       \<lparr>triple_barrier := example_barrier\<lparr>stop_loss_delta := Some 0, take_profit_delta := Some 0\<rparr>\<rparr>) 1000
   \<and> \<not> has_current_price_reached_take_profit ((example_order SELL ''a'')
       \<lparr>triple_barrier := example_barrier\<lparr>stop_loss_delta := Some 0, take_profit_delta := Some 0\<rparr>\<rparr>) 1"
  using zero_delta_disables_barrier
          [of "(example_order SELL ''a'')
                 \<lparr>triple_barrier := example_barrier\<lparr>stop_loss_delta := Some 0, take_profit_delta := Some 0\<rparr>\<rparr>" 1000]
        zero_delta_disables_barrier
          [of "(example_order SELL ''a'')
                 \<lparr>triple_barrier := example_barrier\<lparr>stop_loss_delta := Some 0, take_profit_delta := Some 0\<rparr>\<rparr>" 1]
  by simp

section \<open>Event handlers\<close>

text \<open>
  C7. A fill, a cancellation or a creation confirmation whose order id matches no tracked
  order and no take-profit order leaves the strategy as it was: both registries and every
  order record are unchanged, and the handler returns without raising.
\<close>

theorem unmatched_event_is_ignored:
  assumes "\<forall>order\<in>set (tracked_orders s). order_id order \<noteq> oid"
      and "\<forall>order\<in>set (take_profit_limit_orders s). tp_order_id order \<noteq> oid"
      and "fe_order_id filled_event = oid"
      and "ca_order_id cancelled_event = oid"
      and "ce_order_id created_event = oid"
  shows "did_fill_order gw now filled_event s = Inr s
       \<and> did_cancel_order now cancelled_event s = s
       \<and> did_create_sell_order created_event s = s
       \<and> did_create_buy_order created_event s = s"
proof -
  have t: "\<And>f. update_first (\<lambda>order. order_id order = oid) f (tracked_orders s) = tracked_orders s"
    using assms(1) by (simp add: update_first_no_match)
  have ft: "find (\<lambda>order. order_id order = oid) (tracked_orders s) = None"
    using assms(1) by (simp add: find_no_match)
  have fp: "find (\<lambda>order. tp_order_id order = oid) (take_profit_limit_orders s) = None"
    using assms(2) by (simp add: find_no_match)
  have "did_fill_order gw now filled_event s = Inr s"
    using ft fp assms(3) by (simp add: did_fill_order_def)
  moreover have "did_cancel_order now cancelled_event s = s"
    using t fp assms(4) by (simp add: did_cancel_order_def)
  moreover have "did_create_sell_order created_event s = s"
    using t assms(5) by (simp add: did_create_sell_order_def)
  moreover have "did_create_buy_order created_event s = s"
    using t assms(5) by (simp add: did_create_buy_order_def)
  ultimately show ?thesis by simp
qed

theorem unmatched_event_is_ignored_witness:
  "did_fill_order rejecting_gateway 2000 (example_fill ''zz'' 2 101 2000 (Some ''OPEN''))
       (example_strategy [example_order SELL ''a''] [example_take_profit ''tp'' (example_order SELL ''a'')])
     = Inr (example_strategy [example_order SELL ''a''] [example_take_profit ''tp'' (example_order SELL ''a'')])
   \<and> did_fill_order rejecting_gateway 2000 (example_fill ''zz'' 2 101 2000 (Some ''CLOSE''))
       (example_strategy [example_order SELL ''a''] [example_take_profit ''tp'' (example_order SELL ''a'')])
     = Inr (example_strategy [example_order SELL ''a''] [example_take_profit ''tp'' (example_order SELL ''a'')])
   \<and> did_cancel_order 2000 \<lparr>ca_order_id = ''zz''\<rparr>
       (example_strategy [example_order SELL ''a''] [example_take_profit ''tp'' (example_order SELL ''a'')])
     = example_strategy [example_order SELL ''a''] [example_take_profit ''tp'' (example_order SELL ''a'')]
   \<and> did_create_sell_order \<lparr>ce_order_id = ''zz'', ce_exchange_order_id = Some ''e'', ce_position = Some ''OPEN''\<rparr>
       (example_strategy [example_order SELL ''a''] [example_take_profit ''tp'' (example_order SELL ''a'')])
     = example_strategy [example_order SELL ''a''] [example_take_profit ''tp'' (example_order SELL ''a'')]"
proof -
  let ?s = "example_strategy [example_order SELL ''a''] [example_take_profit ''tp'' (example_order SELL ''a'')]"
  have h1: "\<forall>order\<in>set (tracked_orders ?s). order_id order \<noteq> ''zz''"
    by (simp add: example_strategy_def example_order_def)
  have h2: "\<forall>order\<in>set (take_profit_limit_orders ?s). tp_order_id order \<noteq> ''zz''"
    by (simp add: example_strategy_def example_take_profit_def)
  have e: "fe_order_id (example_fill ''zz'' 2 101 2000 (Some ''OPEN'')) = ''zz''"
          "fe_order_id (example_fill ''zz'' 2 101 2000 (Some ''CLOSE'')) = ''zz''"
    by (simp_all add: example_fill_def)
  have c: "ca_order_id \<lparr>ca_order_id = ''zz''\<rparr> = ''zz''"
          "ce_order_id \<lparr>ce_order_id = ''zz'', ce_exchange_order_id = Some ''e'', ce_position = Some ''OPEN''\<rparr> = ''zz''"
    by simp_all
  show ?thesis
    using unmatched_event_is_ignored [OF h1 h2 e(1) c, where gw = rejecting_gateway and now = 2000]
          unmatched_event_is_ignored [OF h1 h2 e(2) c, where gw = rejecting_gateway and now = 2000]
    by simp
qed

text \<open>
  C3. A fill whose position action is "close" (or absent) and whose id is that of a
  take-profit order (the first one with that id, at index \<open>j\<close>) adds the fill to the
  take-profit order, which stays in the registry at its place, and subtracts the fill amount
  from \<open>filled_amount\<close> of the parent (the first tracked order with the parent's id, at index
  \<open>i\<close>), without clamping. The parent gets \<open>terminated_at\<close> = the event's timestamp and
  \<open>close_type\<close> = TAKE_PROFIT exactly when the new \<open>filled_amount\<close> is 0; otherwise both
  fields keep their values. Nothing else changes and the handler returns.
\<close>

theorem take_profit_fill_reduces_parent:
  assumes pos: "is_close_or_absent (fe_position filled_event)"
      and j: "j < length (take_profit_limit_orders s)"
             "tp_order_id (take_profit_limit_orders s ! j) = fe_order_id filled_event"
             "\<forall>k<j. tp_order_id (take_profit_limit_orders s ! k) \<noteq> fe_order_id filled_event"
      and i: "i < length (tracked_orders s)"
             "order_id (tracked_orders s ! i) = order_id (tp_tracked_order (take_profit_limit_orders s ! j))"
             "\<forall>k<i. order_id (tracked_orders s ! k) \<noteq> order_id (tp_tracked_order (take_profit_limit_orders s ! j))"
  shows "did_fill_order gw now filled_event s =
           Inr (s\<lparr>take_profit_limit_orders :=
                    (take_profit_limit_orders s)
                      [j := (take_profit_limit_orders s ! j)
                              \<lparr>tp_filled_amount := tp_filled_amount (take_profit_limit_orders s ! j) + fe_amount filled_event,
                               tp_last_filled_at := Some (fe_timestamp filled_event),
                               tp_last_filled_price := Some (fe_price filled_event)\<rparr>],
                  tracked_orders :=
                    (tracked_orders s)
                      [i := (tracked_orders s ! i)
                              \<lparr>filled_amount := filled_amount (tracked_orders s ! i) - fe_amount filled_event,
                               terminated_at :=
                                 (if filled_amount (tracked_orders s ! i) - fe_amount filled_event = 0
                                  then Some (fe_timestamp filled_event)
                                  else terminated_at (tracked_orders s ! i)),
                               close_type :=
                                 (if filled_amount (tracked_orders s ! i) - fe_amount filled_event = 0
                                  then Some TAKE_PROFIT
                                  else close_type (tracked_orders s ! i))\<rparr>]\<rparr>)"
proof -
  let ?tp = "take_profit_limit_orders s ! j"
  have f: "find (\<lambda>order. tp_order_id order = fe_order_id filled_event) (take_profit_limit_orders s) = Some ?tp"
    using j by (intro find_at) auto
  have u1: "update_first (\<lambda>order. tp_order_id order = fe_order_id filled_event)
              (fill_tp_limit_order filled_event) (take_profit_limit_orders s)
            = (take_profit_limit_orders s)[j := fill_tp_limit_order filled_event ?tp]"
    using j by (intro update_first_at) auto
  have u2: "update_first (\<lambda>order. order_id order = order_id (tp_tracked_order ?tp))
              (reduce_tracked_order filled_event) (tracked_orders s)
            = (tracked_orders s)[i := reduce_tracked_order filled_event (tracked_orders s ! i)]"
    using i by (intro update_first_at) auto
  have r: "reduce_tracked_order filled_event (tracked_orders s ! i) =
           (tracked_orders s ! i)
             \<lparr>filled_amount := filled_amount (tracked_orders s ! i) - fe_amount filled_event,
              terminated_at :=
                (if filled_amount (tracked_orders s ! i) - fe_amount filled_event = 0
                 then Some (fe_timestamp filled_event)
                 else terminated_at (tracked_orders s ! i)),
              close_type :=
                (if filled_amount (tracked_orders s ! i) - fe_amount filled_event = 0
                 then Some TAKE_PROFIT
                 else close_type (tracked_orders s ! i))\<rparr>"
    by (simp add: reduce_tracked_order_def Let_def)
  show ?thesis
    using pos f by (simp add: did_fill_order_def u1 u2 r fill_tp_limit_order_def)
qed

theorem take_profit_fill_reduces_parent_witness:
  "did_fill_order rejecting_gateway 2000 (example_fill ''tp'' 2 97 2000 (Some ''CLOSE''))
     (example_strategy [example_order SELL ''a''] [example_take_profit ''tp'' (example_order SELL ''a'')])
   = Inr (example_strategy
            [(example_order SELL ''a'')
               \<lparr>filled_amount := 0, terminated_at := Some 2000, close_type := Some TAKE_PROFIT\<rparr>]
            [(example_take_profit ''tp'' (example_order SELL ''a''))
               \<lparr>tp_filled_amount := 2, tp_last_filled_at := Some 2000, tp_last_filled_price := Some 97\<rparr>])
   \<and> did_fill_order rejecting_gateway 2000 (example_fill ''tp'' 3 97 2000 (Some ''CLOSE''))
     (example_strategy [example_order SELL ''a''] [example_take_profit ''tp'' (example_order SELL ''a'')])
   = Inr (example_strategy
            [(example_order SELL ''a'')\<lparr>filled_amount := - 1\<rparr>]
            [(example_take_profit ''tp'' (example_order SELL ''a''))
               \<lparr>tp_filled_amount := 3, tp_last_filled_at := Some 2000, tp_last_filled_price := Some 97\<rparr>])"
proof -
  let ?s = "example_strategy [example_order SELL ''a''] [example_take_profit ''tp'' (example_order SELL ''a'')]"
  let ?full = "example_fill ''tp'' 2 97 2000 (Some ''CLOSE'')"
  let ?over = "example_fill ''tp'' 3 97 2000 (Some ''CLOSE'')"
  have pos: "is_close_or_absent (fe_position ?full)" "is_close_or_absent (fe_position ?over)"
    by (simp_all add: example_fill_def is_close_or_absent_def PositionAction_value_def)
  have j: "0 < length (take_profit_limit_orders ?s)"
    by (simp add: example_strategy_def)
  have jf: "tp_order_id (take_profit_limit_orders ?s ! 0) = fe_order_id ?full"
           "\<forall>k<0. tp_order_id (take_profit_limit_orders ?s ! k) \<noteq> fe_order_id ?full"
    by (simp_all add: example_strategy_def example_take_profit_def example_fill_def)
  have jo: "tp_order_id (take_profit_limit_orders ?s ! 0) = fe_order_id ?over"
           "\<forall>k<0. tp_order_id (take_profit_limit_orders ?s ! k) \<noteq> fe_order_id ?over"
    by (simp_all add: example_strategy_def example_take_profit_def example_fill_def)
  have i: "0 < length (tracked_orders ?s)"
          "order_id (tracked_orders ?s ! 0) = order_id (tp_tracked_order (take_profit_limit_orders ?s ! 0))"
          "\<forall>k<0. order_id (tracked_orders ?s ! k) \<noteq> order_id (tp_tracked_order (take_profit_limit_orders ?s ! 0))"
    by (simp_all add: example_strategy_def example_take_profit_def)
  show ?thesis
    using take_profit_fill_reduces_parent [OF pos(1) j jf i, where gw = rejecting_gateway and now = 2000]
          take_profit_fill_reduces_parent [OF pos(2) j jo i, where gw = rejecting_gateway and now = 2000]
    by (simp add: example_strategy_def example_take_profit_def example_order_def example_fill_def)
qed

section \<open>The creation guard\<close>

lemma find_last_terminated_filled_order_None:
  "(find_last_terminated_filled_order sd r s = None) =
   (\<forall>order\<in>set (tracked_orders s).
       \<not> (side order = sd \<and> ref order = r \<and> truthy (last_filled_at order) \<and> truthy (terminated_at order)))"
proof -
  let ?P = "\<lambda>order. side order = sd \<and> ref order = r \<and> truthy (last_filled_at order) \<and> truthy (terminated_at order)"
  have "(find_last_terminated_filled_order sd r s = None) = (filter ?P (tracked_orders s) = [])"
    by (simp add: find_last_terminated_filled_order_def split: list.splits)
  also have "\<dots> = (\<forall>order\<in>set (tracked_orders s). \<not> ?P order)"
    by (simp only: filter_empty_conv)
  finally show ?thesis .
qed

lemma find_last_terminated_filled_order_latest:
  assumes m: "order \<in> set (tracked_orders s)" "side order = sd" "ref order = r"
             "truthy (last_filled_at order)" "terminated_at order = Some T" "T \<noteq> 0"
      and latest: "\<forall>other\<in>set (tracked_orders s).
                     side other = sd \<and> ref other = r \<and> truthy (last_filled_at other) \<and> truthy (terminated_at other)
                     \<longrightarrow> the (terminated_at other) \<le> T"
  shows "\<exists>found. find_last_terminated_filled_order sd r s = Some found \<and> terminated_at found = Some T"
proof -
  let ?P = "\<lambda>order. side order = sd \<and> ref order = r \<and> truthy (last_filled_at order) \<and> truthy (terminated_at order)"
  let ?k = "\<lambda>order. the (terminated_at order)"
  have P: "?P order" using m by (simp add: truthy_def)
  then have mem: "order \<in> set (filter ?P (tracked_orders s))" using m(1) by simp
  then obtain b xs where bx: "filter ?P (tracked_orders s) = b # xs"
    by (cases "filter ?P (tracked_orders s)") auto
  let ?found = "max_from ?k b xs"
  have found: "find_last_terminated_filled_order sd r s = Some ?found"
    by (simp add: find_last_terminated_filled_order_def bx)
  have "?found \<in> set (filter ?P (tracked_orders s))"
    using max_from_mem [of ?k b xs] bx by simp
  then have fP: "?P ?found" and fin: "?found \<in> set (tracked_orders s)" by auto
  then have le: "?k ?found \<le> T" using latest by blast
  have "?k order \<le> ?k ?found" using mem bx max_from_ge [of order b xs ?k] by simp
  then have ge: "T \<le> ?k ?found" using m(5) by simp
  from fP have "terminated_at ?found \<noteq> None" by (auto simp: truthy_def split: option.splits)
  then have "terminated_at ?found = Some T" using le ge by auto
  then show ?thesis using found by blast
qed

text \<open>
  C5. Let the quote amount be nonzero and no buy creation be in flight. If the registry holds
  a buy order for ref \<open>r\<close> that is filled and terminated at \<open>T\<close> (both timestamps set and
  not zero, which is how the code tests them), and no filled and terminated buy order for
  \<open>r\<close> has a later \<open>terminated_at\<close>, then \<open>can_create_order\<close> with a cooldown of 5 minutes
  is true exactly when \<open>T + 300 \<le> now\<close>: false on \<open>[T, T + 300)\<close>, true at \<open>T + 300\<close>
  and after. If the registry holds no filled and terminated buy order for \<open>r\<close>, the guard
  is true whatever the cooldown.
\<close>

theorem cooldown_window:
  assumes "amount_quote \<noteq> 0" and "\<not> is_a_buy_order_being_created s"
  shows "((\<exists>order\<in>set (tracked_orders s).
             side order = BUY \<and> ref order = r \<and> truthy (last_filled_at order) \<and>
             terminated_at order = Some T \<and> T \<noteq> 0) \<and>
          (\<forall>other\<in>set (tracked_orders s).
             side other = BUY \<and> ref other = r \<and> truthy (last_filled_at other) \<and> truthy (terminated_at other)
             \<longrightarrow> the (terminated_at other) \<le> T)
          \<longrightarrow> can_create_order BUY amount_quote r 5 now s = (T + 300 \<le> now))
       \<and> ((\<forall>order\<in>set (tracked_orders s).
             \<not> (side order = BUY \<and> ref order = r \<and> truthy (last_filled_at order) \<and> truthy (terminated_at order)))
          \<longrightarrow> can_create_order BUY amount_quote r cooldown_time_min now s)"
proof (intro conjI impI)
  assume h: "(\<exists>order\<in>set (tracked_orders s).
             side order = BUY \<and> ref order = r \<and> truthy (last_filled_at order) \<and>
             terminated_at order = Some T \<and> T \<noteq> 0) \<and>
          (\<forall>other\<in>set (tracked_orders s).
             side other = BUY \<and> ref other = r \<and> truthy (last_filled_at other) \<and> truthy (terminated_at other)
             \<longrightarrow> the (terminated_at other) \<le> T)"
  then obtain order where o: "order \<in> set (tracked_orders s)" "side order = BUY" "ref order = r"
      "truthy (last_filled_at order)" "terminated_at order = Some T" "T \<noteq> 0"
    by blast
  from find_last_terminated_filled_order_latest [OF o] h
  obtain found where "find_last_terminated_filled_order BUY r s = Some found" "terminated_at found = Some T"
    by blast
  then show "can_create_order BUY amount_quote r 5 now s = (T + 300 \<le> now)"
    using assms by (auto simp: can_create_order_def)
next
  assume "\<forall>order\<in>set (tracked_orders s).
             \<not> (side order = BUY \<and> ref order = r \<and> truthy (last_filled_at order) \<and> truthy (terminated_at order))"
  then have "find_last_terminated_filled_order BUY r s = None"
    by (simp add: find_last_terminated_filled_order_None)
  then show "can_create_order BUY amount_quote r cooldown_time_min now s"
    using assms by (simp add: can_create_order_def)
qed

theorem cooldown_window_witness:
  "\<not> can_create_order BUY 15 ''R'' 5 5000
       (example_strategy [(example_order BUY ''b'')\<lparr>terminated_at := Some 5000, close_type := Some STOP_LOSS\<rparr>] [])
   \<and> \<not> can_create_order BUY 15 ''R'' 5 (52999 / 10)
       (example_strategy [(example_order BUY ''b'')\<lparr>terminated_at := Some 5000, close_type := Some STOP_LOSS\<rparr>] [])
   \<and> can_create_order BUY 15 ''R'' 5 5300
       (example_strategy [(example_order BUY ''b'')\<lparr>terminated_at := Some 5000, close_type := Some STOP_LOSS\<rparr>] [])
   \<and> can_create_order BUY 15 ''R'' 5 5000 (example_strategy [example_order BUY ''b''] [])"
proof -
  let ?o = "(example_order BUY ''b'')\<lparr>terminated_at := Some 5000, close_type := Some STOP_LOSS\<rparr>"
  let ?s = "example_strategy [?o] []"
  let ?s' = "example_strategy [example_order BUY ''b''] []"
  have q: "(15::rat) \<noteq> 0" by simp
  have l: "\<not> is_a_buy_order_being_created ?s" "\<not> is_a_buy_order_being_created ?s'"
    by (simp_all add: example_strategy_def)
  have h: "(\<exists>order\<in>set (tracked_orders ?s).
             side order = BUY \<and> ref order = ''R'' \<and> truthy (last_filled_at order) \<and>
             terminated_at order = Some 5000 \<and> (5000::rat) \<noteq> 0) \<and>
          (\<forall>other\<in>set (tracked_orders ?s).
             side other = BUY \<and> ref other = ''R'' \<and> truthy (last_filled_at other) \<and> truthy (terminated_at other)
             \<longrightarrow> the (terminated_at other) \<le> 5000)"
    by (simp add: example_strategy_def example_order_def truthy_def)
  have n: "\<forall>order\<in>set (tracked_orders ?s').
             \<not> (side order = BUY \<and> ref order = ''R'' \<and> truthy (last_filled_at order) \<and> truthy (terminated_at order))"
    by (simp add: example_strategy_def example_order_def truthy_def)
  show ?thesis
    using h n
          cooldown_window [OF q l(1), where r = "''R''" and T = 5000 and now = 5000]
          cooldown_window [OF q l(1), where r = "''R''" and T = 5000 and now = "52999 / 10"]
          cooldown_window [OF q l(1), where r = "''R''" and T = 5000 and now = 5300]
          cooldown_window [OF q l(2), where r = "''R''" and cooldown_time_min = 5 and now = 5000]
    by simp
qed

section \<open>Closing and creating orders\<close>

lemma state_of_simps [simp]: "state_of (Inl (e, s)) = s" "state_of (Inr s) = s"
  by (simp_all add: state_of_def)

lemma call_gateway_cases:
  "call_gateway gw c s =
     (case gw (gateway_calls s @ [c]) of
        Inl e \<Rightarrow> Inl (e, s\<lparr>gateway_calls := gateway_calls s @ [c]\<rparr>)
      | Inr r \<Rightarrow> Inr (r, s\<lparr>gateway_calls := gateway_calls s @ [c]\<rparr>))"
  by (simp add: call_gateway_def Let_def)

lemma close_filled_order_cases:
  "close_filled_order gw md now filled_order market_or_limit ct s =
     (case float_true_div (limit_take_profit_price_delta_bps (config s)) 10000 of
        Inl e \<Rightarrow> Inl (e, s)
      | Inr f \<Rightarrow>
          (case gw (gateway_calls s @ [close_call f md filled_order market_or_limit]) of
             Inl e \<Rightarrow> Inl (e, s\<lparr>gateway_calls := gateway_calls s @ [close_call f md filled_order market_or_limit]\<rparr>)
           | Inr r \<Rightarrow>
               Inr (s\<lparr>gateway_calls := gateway_calls s @ [close_call f md filled_order market_or_limit],
                      tracked_orders :=
                        update_first (\<lambda>order. order_id order = order_id filled_order) (terminate now ct)
                          (tracked_orders s)\<rparr>)))"
  by (simp add: close_filled_order_def close_call_def call_gateway_cases split: sum.splits)

text \<open>The arithmetic of the price buffer at 0 and at 1 basis point.\<close>

lemma float_true_div_0: "float_true_div 0 10000 = Inr 0"
  by code_simp

lemma float_true_div_1: "float_true_div 1 10000 = Inr (7378697629483821 / 73786976294838206464)"
  by code_simp

lemma round_to_double_1: "round_to_double 1 = 1"
  by code_simp

lemma round_to_context_99: "round_to_context 99 = 99"
  by code_simp

lemma round_to_context_101: "round_to_context 101 = 101"
  by code_simp

lemma close_price_sell_0: "best_bid md = 99 \<Longrightarrow> close_price_sell md 0 = 99"
  by (simp add: close_price_sell_def round_to_double_1 round_to_context_99)

lemma close_price_buy_0: "best_ask md = 101 \<Longrightarrow> close_price_buy md 0 = 101"
  by (simp add: close_price_buy_def round_to_double_1 round_to_context_101)

lemma close_price_sell_1:
  "round_to_context (99 * round_to_double (1 - 7378697629483821 / 73786976294838206464))
     = 9899010000000000109032782802 / 100000000000000000000000000"
  by code_simp

lemma close_price_buy_1:
  "round_to_context (101 * round_to_double (1 + 7378697629483821 / 73786976294838206464))
     = 1010100999999999988876453472 / 10000000000000000000000000"
  by code_simp

lemma example_delta_fraction:
  "float_true_div (limit_take_profit_price_delta_bps (config (example_strategy orders tp_orders))) 10000 = Inr 0"
  by (simp add: example_strategy_def example_config_def float_true_div_0)

text \<open>
  C1, as the code has it. Let \<open>filled_order\<close> be tracked (the first tracked order with its id
  is at index \<open>i\<close>), let the double \<open>f\<close> be \<^verbatim>\<open>bps / 10000\<close> for the configured
  \<open>limit_take_profit_price_delta_bps\<close>, and let the exchange accept the call. Then
  \<open>close_filled_order\<close> makes exactly one exchange call, for the order's full
  \<open>filled_amount\<close>, with position action CLOSE and the order type it was given: for a sell
  order a buy at \<open>best_bid * Decimal(1 - f)\<close>, for a buy order a sell at
  \<open>best_ask * Decimal(1 + f)\<close>, the factor being a double and the product a decimal of 28
  digits. Afterwards the tracked order at \<open>i\<close> has \<open>terminated_at = now\<close> and the given
  \<open>close_type\<close>, and nothing else has changed.
\<close>

theorem close_filled_order_effect:
  assumes i: "i < length (tracked_orders s)"
             "order_id (tracked_orders s ! i) = order_id filled_order"
             "\<forall>k<i. order_id (tracked_orders s ! k) \<noteq> order_id filled_order"
      and f: "float_true_div (limit_take_profit_price_delta_bps (config s)) 10000 = Inr f"
      and c: "c = (if side filled_order = SELL
                   then Buy (connector_name filled_order) (trading_pair filled_order) (filled_amount filled_order)
                            market_or_limit
                            (round_to_context (best_bid md * round_to_double (1 - f)))
                            CLOSE
                   else Sell (connector_name filled_order) (trading_pair filled_order) (filled_amount filled_order)
                             market_or_limit
                             (round_to_context (best_ask md * round_to_double (1 + f)))
                             CLOSE)"
      and ok: "gw (gateway_calls s @ [c]) = Inr r"
  shows "close_filled_order gw md now filled_order market_or_limit ct s =
           Inr (s\<lparr>gateway_calls := gateway_calls s @ [c],
                  tracked_orders :=
                    (tracked_orders s)
                      [i := (tracked_orders s ! i)\<lparr>terminated_at := Some now, close_type := Some ct\<rparr>]\<rparr>)"
proof -
  have u: "update_first (\<lambda>order. order_id order = order_id filled_order) (terminate now ct) (tracked_orders s)
           = (tracked_orders s)[i := terminate now ct (tracked_orders s ! i)]"
    using i by (intro update_first_at) auto
  have cc: "close_call f md filled_order market_or_limit = c"
    using c by (simp add: close_call_def close_price_sell_def close_price_buy_def)
  show ?thesis
    using f ok u by (simp add: close_filled_order_cases cc terminate_def)
qed

text \<open>
  C1 as the specification words it pairs the sides the other way round (a sell order closed by
  a buy at \<open>best_ask * (1 + delta)\<close>, a buy order by a sell at \<open>best_bid * (1 - delta)\<close>).
  With best bid 99, best ask 101 and a delta of 0 basis points the code buys at 99, not at 101,
  to close a sell order, and sells at 101, not at 99, to close a buy order.
\<close>

theorem close_filled_order_counterexample:
  "gateway_calls (state_of (close_filled_order accepting_gateway example_market 2000 (example_order SELL ''a'')
                              LIMIT TAKE_PROFIT (example_strategy [example_order SELL ''a''] [])))
     = [Buy ''hyperliquid_perpetual'' ''BTC-USD'' 2 LIMIT 99 CLOSE]
   \<and> gateway_calls (state_of (close_filled_order accepting_gateway example_market 2000 (example_order SELL ''a'')
                              LIMIT TAKE_PROFIT (example_strategy [example_order SELL ''a''] [])))
     \<noteq> [Buy ''hyperliquid_perpetual'' ''BTC-USD'' 2 LIMIT
            (best_ask example_market * (1 + of_int (limit_take_profit_price_delta_bps example_config) / 10000))
            CLOSE]
   \<and> gateway_calls (state_of (close_filled_order accepting_gateway example_market 2000 (example_order BUY ''b'')
                              LIMIT TAKE_PROFIT (example_strategy [example_order BUY ''b''] [])))
     = [Sell ''hyperliquid_perpetual'' ''BTC-USD'' 2 LIMIT 101 CLOSE]
   \<and> gateway_calls (state_of (close_filled_order accepting_gateway example_market 2000 (example_order BUY ''b'')
                              LIMIT TAKE_PROFIT (example_strategy [example_order BUY ''b''] [])))
     \<noteq> [Sell ''hyperliquid_perpetual'' ''BTC-USD'' 2 LIMIT
            (best_bid example_market * (1 - of_int (limit_take_profit_price_delta_bps example_config) / 10000))
            CLOSE]"
proof -
  have p: "close_price_sell example_market 0 = 99" "close_price_buy example_market 0 = 101"
    by (simp_all add: close_price_sell_0 close_price_buy_0 example_market_def)
  show ?thesis
    by (simp add: close_filled_order_cases example_delta_fraction close_call_def p accepting_gateway_def)
       (simp add: example_market_def example_order_def example_strategy_def example_config_def)
qed

theorem close_filled_order_effect_witness:
  "close_filled_order accepting_gateway example_market 2000 (example_order SELL ''a'')
     MARKET STOP_LOSS
     ((example_strategy [example_order BUY ''b'', example_order SELL ''a''] [])
        \<lparr>config := example_config\<lparr>limit_take_profit_price_delta_bps := 1\<rparr>\<rparr>)
   = Inr ((example_strategy
             [example_order BUY ''b'',
              (example_order SELL ''a'')\<lparr>terminated_at := Some 2000, close_type := Some STOP_LOSS\<rparr>] [])
          \<lparr>config := example_config\<lparr>limit_take_profit_price_delta_bps := 1\<rparr>,
           gateway_calls := [Buy ''hyperliquid_perpetual'' ''BTC-USD'' 2 MARKET
                               (9899010000000000109032782802 / 100000000000000000000000000) CLOSE]\<rparr>)
   \<and> close_filled_order accepting_gateway example_market 2000 (example_order BUY ''b'')
     LIMIT TAKE_PROFIT
     ((example_strategy [example_order BUY ''b'', example_order SELL ''a''] [])
        \<lparr>config := example_config\<lparr>limit_take_profit_price_delta_bps := 1\<rparr>\<rparr>)
   = Inr ((example_strategy
             [(example_order BUY ''b'')\<lparr>terminated_at := Some 2000, close_type := Some TAKE_PROFIT\<rparr>,
              example_order SELL ''a''] [])
          \<lparr>config := example_config\<lparr>limit_take_profit_price_delta_bps := 1\<rparr>,
           gateway_calls := [Sell ''hyperliquid_perpetual'' ''BTC-USD'' 2 LIMIT
                               (1010100999999999988876453472 / 10000000000000000000000000) CLOSE]\<rparr>)"
proof -
  let ?s = "(example_strategy [example_order BUY ''b'', example_order SELL ''a''] [])
              \<lparr>config := example_config\<lparr>limit_take_profit_price_delta_bps := 1\<rparr>\<rparr>"
  let ?f = "7378697629483821 / 73786976294838206464 :: rat"
  let ?cs = "Buy ''hyperliquid_perpetual'' ''BTC-USD'' 2 MARKET
               (9899010000000000109032782802 / 100000000000000000000000000) CLOSE"
  let ?cb = "Sell ''hyperliquid_perpetual'' ''BTC-USD'' 2 LIMIT
               (1010100999999999988876453472 / 10000000000000000000000000) CLOSE"
  have f: "float_true_div (limit_take_profit_price_delta_bps (config ?s)) 10000 = Inr ?f"
    by (simp add: float_true_div_1)
  have bid: "best_bid example_market = 99" and ask: "best_ask example_market = 101"
    by (simp_all add: example_market_def)
  have i: "1 < length (tracked_orders ?s)"
          "order_id (tracked_orders ?s ! 1) = order_id (example_order SELL ''a'')"
          "\<forall>k<1. order_id (tracked_orders ?s ! k) \<noteq> order_id (example_order SELL ''a'')"
    by (simp_all add: example_strategy_def example_order_def)
  have j: "0 < length (tracked_orders ?s)"
          "order_id (tracked_orders ?s ! 0) = order_id (example_order BUY ''b'')"
          "\<forall>k<0. order_id (tracked_orders ?s ! k) \<noteq> order_id (example_order BUY ''b'')"
    by (simp_all add: example_strategy_def example_order_def)
  have cs: "?cs = (if side (example_order SELL ''a'') = SELL
                   then Buy (connector_name (example_order SELL ''a'')) (trading_pair (example_order SELL ''a''))
                            (filled_amount (example_order SELL ''a'')) MARKET
                            (round_to_context (best_bid example_market * round_to_double (1 - ?f))) CLOSE
                   else Sell (connector_name (example_order SELL ''a'')) (trading_pair (example_order SELL ''a''))
                             (filled_amount (example_order SELL ''a'')) MARKET
                             (round_to_context (best_ask example_market * round_to_double (1 + ?f))) CLOSE)"
    unfolding bid ask close_price_sell_1 by (simp add: example_order_def)
  have cb: "?cb = (if side (example_order BUY ''b'') = SELL
                   then Buy (connector_name (example_order BUY ''b'')) (trading_pair (example_order BUY ''b''))
                            (filled_amount (example_order BUY ''b'')) LIMIT
                            (round_to_context (best_bid example_market * round_to_double (1 - ?f))) CLOSE
                   else Sell (connector_name (example_order BUY ''b'')) (trading_pair (example_order BUY ''b''))
                             (filled_amount (example_order BUY ''b'')) LIMIT
                             (round_to_context (best_ask example_market * round_to_double (1 + ?f))) CLOSE)"
    unfolding bid ask close_price_buy_1 by (simp add: example_order_def)
  have oks: "accepting_gateway (gateway_calls ?s @ [?cs]) = Inr ''o''"
    and okb: "accepting_gateway (gateway_calls ?s @ [?cb]) = Inr ''o''"
    by (simp_all add: accepting_gateway_def example_strategy_def)
  show ?thesis
    using close_filled_order_effect
            [where i = 1 and s = ?s and filled_order = "example_order SELL ''a''" and c = ?cs and
                   market_or_limit = MARKET and md = example_market and gw = accepting_gateway and
                   r = "''o''" and now = 2000 and ct = STOP_LOSS and f = ?f, OF i f cs oks]
          close_filled_order_effect
            [where i = 0 and s = ?s and filled_order = "example_order BUY ''b''" and c = ?cb and
                   market_or_limit = LIMIT and md = example_market and gw = accepting_gateway and
                   r = "''o''" and now = 2000 and ct = TAKE_PROFIT and f = ?f, OF j f cb okb]
    by (simp add: example_strategy_def)
qed

text \<open>
  C4, as the code has it. \<open>create_individual_order\<close> sets the latch of the order's side and
  calls the exchange. When the exchange returns an order id, the tracked order is appended and
  the latch of that side is false on return. When the exchange call raises, the error leaves
  \<open>create_individual_order\<close> with the latch of that side still true: nothing resets it on
  that path.
\<close>

theorem create_individual_order_latch:
  assumes c: "c = (if ec_side executor_config = SELL
                   then Sell (ec_connector_name executor_config) (ec_trading_pair executor_config)
                             (ec_amount executor_config) (open_order_type tb) (ec_entry_price executor_config) NIL
                   else Buy (ec_connector_name executor_config) (ec_trading_pair executor_config)
                            (ec_amount executor_config) (open_order_type tb) (ec_entry_price executor_config) NIL)"
  shows "(gw (gateway_calls s @ [c]) = Inr oid \<longrightarrow>
            create_individual_order gw now executor_config tb r s =
              Inr ((if ec_side executor_config = SELL
                    then s\<lparr>is_a_sell_order_being_created := False\<rparr>
                    else s\<lparr>is_a_buy_order_being_created := False\<rparr>)
                   \<lparr>gateway_calls := gateway_calls s @ [c],
                    tracked_orders := tracked_orders s @
                      [new_tracked_order executor_config (ec_side executor_config) oid tb r now]\<rparr>))
       \<and> (gw (gateway_calls s @ [c]) = Inl e \<longrightarrow>
            create_individual_order gw now executor_config tb r s =
              Inl (e, (if ec_side executor_config = SELL
                       then s\<lparr>is_a_sell_order_being_created := True\<rparr>
                       else s\<lparr>is_a_buy_order_being_created := True\<rparr>)
                      \<lparr>gateway_calls := gateway_calls s @ [c]\<rparr>))"
proof (cases "ec_side executor_config")
  case BUY
  then show ?thesis
    using c by (simp add: create_individual_order_def call_gateway_def Let_def)
next
  case SELL
  then show ?thesis
    using c by (simp add: create_individual_order_def call_gateway_def Let_def)
qed

text \<open>
  C4 as the specification words it fails when the exchange rejects the call: the error
  propagates and \<open>is_a_sell_order_being_created\<close> is left true.
\<close>

theorem create_individual_order_latch_counterexample:
  "create_individual_order rejecting_gateway 1000 (example_executor_config SELL) example_barrier ''R''
     (example_strategy [] [])
   = Inl (GatewayError ''rejected'',
          (example_strategy [] [])
            \<lparr>is_a_sell_order_being_created := True,
             gateway_calls := [Sell ''hyperliquid_perpetual'' ''BTC-USD'' 2 LIMIT 100 NIL]\<rparr>)
   \<and> is_a_sell_order_being_created
       (state_of (create_individual_order rejecting_gateway 1000 (example_executor_config SELL) example_barrier ''R''
                    (example_strategy [] [])))"
  by (simp add: create_individual_order_def call_gateway_def rejecting_gateway_def state_of_def
                example_executor_config_def example_barrier_def example_strategy_def Let_def)

theorem create_individual_order_latch_witness:
  "\<not> is_a_sell_order_being_created
       (state_of (create_individual_order accepting_gateway 1000 (example_executor_config SELL) example_barrier ''R''
                    (example_strategy [] [])))
   \<and> \<not> is_a_buy_order_being_created
       (state_of (create_individual_order accepting_gateway 1000 (example_executor_config BUY) example_barrier ''R''
                    (example_strategy [] [])))
   \<and> is_a_buy_order_being_created
       (state_of (create_individual_order rejecting_gateway 1000 (example_executor_config BUY) example_barrier ''R''
                    (example_strategy [] [])))"
proof -
  let ?s = "example_strategy [] []"
  let ?cs = "Sell ''hyperliquid_perpetual'' ''BTC-USD'' 2 LIMIT 100 NIL"
  let ?cb = "Buy ''hyperliquid_perpetual'' ''BTC-USD'' 2 LIMIT 100 NIL"
  have cs: "?cs = (if ec_side (example_executor_config SELL) = SELL
                   then Sell (ec_connector_name (example_executor_config SELL)) (ec_trading_pair (example_executor_config SELL))
                             (ec_amount (example_executor_config SELL)) (open_order_type example_barrier) (ec_entry_price (example_executor_config SELL)) NIL
                   else Buy (ec_connector_name (example_executor_config SELL)) (ec_trading_pair (example_executor_config SELL))
                            (ec_amount (example_executor_config SELL)) (open_order_type example_barrier) (ec_entry_price (example_executor_config SELL)) NIL)"
    by (simp add: example_executor_config_def example_barrier_def)
  have cb: "?cb = (if ec_side (example_executor_config BUY) = SELL
                   then Sell (ec_connector_name (example_executor_config BUY)) (ec_trading_pair (example_executor_config BUY))
                             (ec_amount (example_executor_config BUY)) (open_order_type example_barrier) (ec_entry_price (example_executor_config BUY)) NIL
                   else Buy (ec_connector_name (example_executor_config BUY)) (ec_trading_pair (example_executor_config BUY))
                            (ec_amount (example_executor_config BUY)) (open_order_type example_barrier) (ec_entry_price (example_executor_config BUY)) NIL)"
    by (simp add: example_executor_config_def example_barrier_def)
  have a: "accepting_gateway (gateway_calls ?s @ [?cs]) = Inr ''o''"
          "accepting_gateway (gateway_calls ?s @ [?cb]) = Inr ''o''"
    by (simp_all add: accepting_gateway_def example_strategy_def)
  have b: "rejecting_gateway (gateway_calls ?s @ [?cb]) = Inl (GatewayError ''rejected'')"
    by (simp add: rejecting_gateway_def)
  show ?thesis
    using a b
          create_individual_order_latch
            [where c = ?cs and executor_config = "example_executor_config SELL" and tb = example_barrier and
                   gw = accepting_gateway and s = ?s and oid = "''o''" and now = 1000 and r = "''R''", OF cs]
          create_individual_order_latch
            [where c = ?cb and executor_config = "example_executor_config BUY" and tb = example_barrier and
                   gw = accepting_gateway and s = ?s and oid = "''o''" and now = 1000 and r = "''R''", OF cb]
          create_individual_order_latch
            [where c = ?cb and executor_config = "example_executor_config BUY" and tb = example_barrier and
                   gw = rejecting_gateway and s = ?s and e = "GatewayError ''rejected''" and now = 1000 and
                   r = "''R''", OF cb]
    by (simp add: state_of_def example_executor_config_def example_strategy_def)
qed

section \<open>The periodic check\<close>

lemma is_close_call_close_call [simp]: "is_close_call (close_call f md filled_order market_or_limit)"
  by (simp add: close_call_def is_close_call_def)

lemma close_filled_order_close_calls:
  "length (close_calls (state_of (close_filled_order gw md now filled_order market_or_limit ct s)))
     \<le> length (close_calls s) + 1"
  by (simp add: close_filled_order_cases close_calls_def split: sum.splits)

lemma cancel_tp_limit_order_cases:
  "cancel_tp_limit_order gw filled_order tp s =
     (case gw (gateway_calls s @ [Cancel (connector_name filled_order) (trading_pair filled_order) (tp_order_id tp)]) of
        Inl e \<Rightarrow> Inl (e, s\<lparr>gateway_calls := gateway_calls s @
                  [Cancel (connector_name filled_order) (trading_pair filled_order) (tp_order_id tp)]\<rparr>)
      | Inr r \<Rightarrow> Inr (s\<lparr>gateway_calls := gateway_calls s @
                  [Cancel (connector_name filled_order) (trading_pair filled_order) (tp_order_id tp)]\<rparr>))"
  by (simp add: cancel_tp_limit_order_def call_gateway_cases split: sum.splits)

lemma cancel_unfilled_order_cases:
  "cancel_unfilled_order gw tracked_order s =
     (case gw (gateway_calls s @ [Cancel (connector_name tracked_order) (trading_pair tracked_order) (order_id tracked_order)]) of
        Inl e \<Rightarrow> Inl (e, s\<lparr>gateway_calls := gateway_calls s @
                  [Cancel (connector_name tracked_order) (trading_pair tracked_order) (order_id tracked_order)]\<rparr>)
      | Inr r \<Rightarrow> Inr (s\<lparr>gateway_calls := gateway_calls s @
                  [Cancel (connector_name tracked_order) (trading_pair tracked_order) (order_id tracked_order)]\<rparr>))"
  by (simp add: cancel_unfilled_order_def call_gateway_cases split: sum.splits)

text \<open>A property that every step of a loop preserves holds after the loop, raised or not.\<close>

lemma for_each_preserves:
  assumes step: "\<And>x s. x \<in> set xs \<Longrightarrow> R s (state_of (f x s))"
      and refl: "\<And>s. R s s"
      and trans: "\<And>s t u. R s t \<Longrightarrow> R t u \<Longrightarrow> R s u"
  shows "R s (state_of (for_each f xs s))"
  using step
proof (induction xs arbitrary: s)
  case Nil
  then show ?case by (simp add: refl)
next
  case (Cons x xs)
  have first: "R s (state_of (f x s))" using Cons.prems by simp
  show ?case
  proof (cases "f x s")
    case (Inl a)
    then show ?thesis using first by (simp add: then_do_def)
  next
    case (Inr s1)
    have "R s1 (state_of (for_each f xs s1))"
      using Cons.prems by (intro Cons.IH) simp
    then show ?thesis using first Inr trans by (auto simp: then_do_def)
  qed
qed

lemma cancel_take_profit_for_order_keeps:
  "close_calls (state_of (cancel_take_profit_for_order gw filled_order s)) = close_calls s
   \<and> tracked_orders (state_of (cancel_take_profit_for_order gw filled_order s)) = tracked_orders s
   \<and> take_profit_limit_orders (state_of (cancel_take_profit_for_order gw filled_order s)) = take_profit_limit_orders s"
  unfolding cancel_take_profit_for_order_def
  by (rule for_each_preserves
        [where R = "\<lambda>s t. close_calls t = close_calls s \<and> tracked_orders t = tracked_orders s \<and>
                          take_profit_limit_orders t = take_profit_limit_orders s"])
     (auto simp: cancel_tp_limit_order_cases close_calls_def is_close_call_def split: sum.splits)

lemma then_cancel_keeps:
  "close_calls (state_of (then_do r (cancel_take_profit_for_order gw filled_order))) = close_calls (state_of r)
   \<and> tracked_orders (state_of (then_do r (cancel_take_profit_for_order gw filled_order))) = tracked_orders (state_of r)"
  by (cases r) (auto simp: then_do_def cancel_take_profit_for_order_keeps)

lemma check_trading_order_length:
  "length (close_calls (state_of (check_trading_order gw md now filled_order s))) \<le> length (close_calls s) + 1"
proof -
  have c: "length (close_calls (state_of (then_do (close_filled_order gw md now filled_order mol ct s)
                                                 (cancel_take_profit_for_order gw filled_order))))
             \<le> Suc (length (close_calls s))" for mol ct
    using close_filled_order_close_calls [of gw md now filled_order mol ct s]
    by (simp add: then_cancel_keeps)
  have d: "length (close_calls (state_of (close_filled_order gw md now filled_order mol ct s)))
             \<le> Suc (length (close_calls s))" for mol ct
    using close_filled_order_close_calls [of gw md now filled_order mol ct s] by simp
  show ?thesis
  proof (cases "has_filled_order_reached_time_limit filled_order now")
    case (Inl e)
    then show ?thesis using c d by (simp add: check_trading_order_def)
  next
    case (Inr reached)
    then show ?thesis using c d by (simp add: check_trading_order_def)
  qed
qed

lemma for_each_check_trading_order_length:
  "length (close_calls (state_of (for_each (check_trading_order gw md now) xs s)))
     \<le> length (close_calls s) + length xs"
proof (induction xs arbitrary: s)
  case Nil
  then show ?case by simp
next
  case (Cons x xs)
  have first: "length (close_calls (state_of (check_trading_order gw md now x s))) \<le> length (close_calls s) + 1"
    by (rule check_trading_order_length)
  show ?case
  proof (cases "check_trading_order gw md now x s")
    case (Inl a)
    then show ?thesis using first by (simp add: then_do_def)
  next
    case (Inr s1)
    have "length (close_calls (state_of (for_each (check_trading_order gw md now) xs s1)))
            \<le> length (close_calls s1) + length xs"
      by (rule Cons.IH)
    then show ?thesis using first Inr by (simp add: then_do_def)
  qed
qed

lemma length_filter_sides:
  "length (filter (\<lambda>order. side order = SELL) xs) + length (filter (\<lambda>order. side order = BUY) xs) = length xs"
proof (induction xs)
  case Nil
  then show ?case by simp
next
  case (Cons x xs)
  then show ?case by (cases "side x") auto
qed

lemma filled_orders_eq:
  "fst (get_filled_tracked_orders_by_side None s) =
     filter (\<lambda>order. side order = SELL) (filter is_active_filled (tracked_orders s))"
  "snd (get_filled_tracked_orders_by_side None s) =
     filter (\<lambda>order. side order = BUY) (filter is_active_filled (tracked_orders s))"
  by (auto simp: get_filled_tracked_orders_by_side_def get_active_tracked_orders_by_side_def
                 get_active_tracked_orders_def is_active_filled_def Let_def intro!: filter_cong)

lemma filled_orders_count:
  "length (fst (get_filled_tracked_orders_by_side None s) @ snd (get_filled_tracked_orders_by_side None s))
     = length (filter is_active_filled (tracked_orders s))"
  using length_filter_sides [of "filter is_active_filled (tracked_orders s)"]
  by (simp only: filled_orders_eq length_append)

lemma check_trading_orders_unfold:
  "check_trading_orders gw md now s =
     for_each (check_trading_order gw md now)
       (fst (get_filled_tracked_orders_by_side None s) @ snd (get_filled_tracked_orders_by_side None s)) s"
  by (simp add: check_trading_orders_def split: prod.splits)

lemma check_trading_orders_length:
  "length (close_calls (state_of (check_trading_orders gw md now s)))
     \<le> length (close_calls s) + length (filter is_active_filled (tracked_orders s))"
  using for_each_check_trading_order_length
          [of gw md now "fst (get_filled_tracked_orders_by_side None s) @ snd (get_filled_tracked_orders_by_side None s)" s]
        filled_orders_count [of s]
  by (simp only: check_trading_orders_unfold)

lemma check_unfilled_orders_keeps:
  "close_calls (state_of (check_unfilled_orders gw now s)) = close_calls s
   \<and> tracked_orders (state_of (check_unfilled_orders gw now s)) = tracked_orders s"
proof (cases "unfilled_order_expiration (config s) = 0")
  case True
  then show ?thesis by (simp add: check_unfilled_orders_def)
next
  case False
  obtain ss bs where sb: "get_unfilled_tracked_orders_by_side None s = (ss, bs)"
    by (cases "get_unfilled_tracked_orders_by_side None s")
  let ?t = "state_of (for_each (\<lambda>unfilled_order s'.
                           if has_unfilled_order_expired unfilled_order (unfilled_order_expiration (config s)) now
                           then cancel_unfilled_order gw unfilled_order s' else Inr s')
                        (ss @ bs) s)"
  have "close_calls ?t = close_calls s \<and> tracked_orders ?t = tracked_orders s"
    by (rule for_each_preserves
          [where R = "\<lambda>s t. close_calls t = close_calls s \<and> tracked_orders t = tracked_orders s"])
       (auto simp: cancel_unfilled_order_cases close_calls_def is_close_call_def split: sum.splits)
  then show ?thesis using False sb by (simp add: check_unfilled_orders_def)
qed

lemma check_orders_length:
  "length (close_calls (state_of (check_orders gw md now s)))
     \<le> length (close_calls s) + length (filter is_active_filled (tracked_orders s))"
proof (cases "check_unfilled_orders gw now s")
  case (Inl a)
  then show ?thesis
    using check_unfilled_orders_keeps [of gw now s] by (simp add: check_orders_def then_do_def)
next
  case (Inr s1)
  then have "close_calls s1 = close_calls s" "tracked_orders s1 = tracked_orders s"
    using check_unfilled_orders_keeps [of gw now s] by simp_all
  then show ?thesis
    using Inr check_trading_orders_length [of gw md now s1] by (simp add: check_orders_def then_do_def)
qed

lemma for_each_cancel_accepted:
  assumes "\<forall>calls. \<exists>r. gw calls = Inr r"
  shows "for_each (cancel_tp_limit_order gw filled_order) tps s =
           Inr (s\<lparr>gateway_calls := gateway_calls s @
                    map (\<lambda>tp. Cancel (connector_name filled_order) (trading_pair filled_order) (tp_order_id tp)) tps\<rparr>)"
proof (induction tps arbitrary: s)
  case Nil
  then show ?case by simp
next
  case (Cons tp tps)
  let ?c = "Cancel (connector_name filled_order) (trading_pair filled_order) (tp_order_id tp)"
  obtain r where r: "gw (gateway_calls s @ [?c]) = Inr r" using assms by blast
  have "cancel_tp_limit_order gw filled_order tp s = Inr (s\<lparr>gateway_calls := gateway_calls s @ [?c]\<rparr>)"
    using r by (simp add: cancel_tp_limit_order_cases)
  then show ?case by (simp add: then_do_def Cons.IH)
qed

lemma for_each_expiry_accepted:
  assumes "\<forall>calls. \<exists>r. gw calls = Inr r"
  shows "for_each (\<lambda>unfilled_order s'. if P unfilled_order then cancel_unfilled_order gw unfilled_order s'
                                         else Inr s') xs s =
           Inr (s\<lparr>gateway_calls := gateway_calls s @
                    map (\<lambda>order. Cancel (connector_name order) (trading_pair order) (order_id order))
                        (filter P xs)\<rparr>)"
proof (induction xs arbitrary: s)
  case Nil
  then show ?case by simp
next
  case (Cons x xs)
  let ?c = "Cancel (connector_name x) (trading_pair x) (order_id x)"
  obtain r where r: "gw (gateway_calls s @ [?c]) = Inr r" using assms by blast
  have "cancel_unfilled_order gw x s = Inr (s\<lparr>gateway_calls := gateway_calls s @ [?c]\<rparr>)"
    using r by (simp add: cancel_unfilled_order_cases)
  then show ?case by (simp add: then_do_def Cons.IH)
qed

lemma check_unfilled_orders_accepted:
  assumes "\<forall>calls. \<exists>r. gw calls = Inr r"
  shows "check_unfilled_orders gw now s = Inr (s\<lparr>gateway_calls := gateway_calls s @ expiry_calls s now\<rparr>)"
proof (cases "unfilled_order_expiration (config s) = 0")
  case True
  then show ?thesis by (simp add: check_unfilled_orders_def expiry_calls_def)
next
  case False
  obtain ss bs where sb: "get_unfilled_tracked_orders_by_side None s = (ss, bs)"
    by (cases "get_unfilled_tracked_orders_by_side None s")
  have "for_each (\<lambda>unfilled_order s'.
                    if has_unfilled_order_expired unfilled_order (unfilled_order_expiration (config s)) now
                    then cancel_unfilled_order gw unfilled_order s' else Inr s') (ss @ bs) s =
          Inr (s\<lparr>gateway_calls := gateway_calls s @
                   map (\<lambda>order. Cancel (connector_name order) (trading_pair order) (order_id order))
                       (filter (\<lambda>order. has_unfilled_order_expired order (unfilled_order_expiration (config s)) now)
                               (ss @ bs))\<rparr>)"
    by (rule for_each_expiry_accepted [OF assms])
  then show ?thesis
    using False sb by (simp add: check_unfilled_orders_def expiry_calls_def)
qed

lemma get_unfilled_tp_limit_orders_cong:
  "take_profit_limit_orders t = take_profit_limit_orders s \<Longrightarrow>
   get_unfilled_tp_limit_orders filled_order t = get_unfilled_tp_limit_orders filled_order s"
  by (simp add: get_unfilled_tp_limit_orders_def get_all_unfilled_tp_limit_orders_def)

lemma exit_action_cong:
  assumes "take_profit_limit_orders t = take_profit_limit_orders s"
  shows "exit_action t md now order = exit_action s md now order"
  unfolding exit_action_def get_unfilled_tp_limit_orders_cong [OF assms] ..

lemma exit_calls_cong:
  assumes "take_profit_limit_orders t = take_profit_limit_orders s"
  shows "exit_calls f t md now order = exit_calls f s md now order"
  unfolding exit_calls_def exit_action_cong [OF assms] get_unfilled_tp_limit_orders_cong [OF assms] ..

lemma record_exit_cong:
  assumes "take_profit_limit_orders t = take_profit_limit_orders s"
  shows "record_exit t md now order orders = record_exit s md now order orders"
  unfolding record_exit_def exit_action_cong [OF assms] ..

lemma time_limit_of_filled_order:
  assumes "truthy (last_filled_at order)"
  shows "has_filled_order_reached_time_limit order now = Inr (time_limit_reached order now)"
proof -
  obtain filled_at where l: "last_filled_at order = Some filled_at"
    using assms by (cases "last_filled_at order") (simp_all add: truthy_def)
  show ?thesis
  proof (cases "time_limit (triple_barrier order)")
    case None
    then show ?thesis
      by (simp add: has_filled_order_reached_time_limit_def time_limit_reached_def truthy_def)
  next
    case (Some limit)
    then show ?thesis
      using l by (simp add: has_filled_order_reached_time_limit_def time_limit_reached_def truthy_def)
  qed
qed

lemma close_then_cancel_accepted:
  assumes gw: "\<forall>calls. \<exists>r. gw calls = Inr r"
      and f: "float_true_div (limit_take_profit_price_delta_bps (config s)) 10000 = Inr f"
  shows "close_filled_order gw md now order mol ct s =
           Inr (s\<lparr>gateway_calls := gateway_calls s @ [close_call f md order mol],
                  tracked_orders :=
                    update_first (\<lambda>tracked_order. order_id tracked_order = order_id order)
                      (terminate now ct) (tracked_orders s)\<rparr>)"
    and "then_do (close_filled_order gw md now order mol ct s) (cancel_take_profit_for_order gw order) =
           Inr (s\<lparr>gateway_calls := gateway_calls s @ close_call f md order mol #
                    map (\<lambda>tp. Cancel (connector_name order) (trading_pair order) (tp_order_id tp))
                        (get_unfilled_tp_limit_orders order s),
                  tracked_orders :=
                    update_first (\<lambda>tracked_order. order_id tracked_order = order_id order)
                      (terminate now ct) (tracked_orders s)\<rparr>)"
proof -
  let ?s1 = "s\<lparr>gateway_calls := gateway_calls s @ [close_call f md order mol],
               tracked_orders :=
                 update_first (\<lambda>tracked_order. order_id tracked_order = order_id order)
                   (terminate now ct) (tracked_orders s)\<rparr>"
  obtain r where r: "gw (gateway_calls s @ [close_call f md order mol]) = Inr r" using gw by blast
  show close: "close_filled_order gw md now order mol ct s = Inr ?s1"
    using f r by (simp add: close_filled_order_cases)
  have tps: "get_unfilled_tp_limit_orders order ?s1 = get_unfilled_tp_limit_orders order s"
    by (rule get_unfilled_tp_limit_orders_cong) simp
  show "then_do (close_filled_order gw md now order mol ct s) (cancel_take_profit_for_order gw order) =
           Inr (s\<lparr>gateway_calls := gateway_calls s @ close_call f md order mol #
                    map (\<lambda>tp. Cancel (connector_name order) (trading_pair order) (tp_order_id tp))
                        (get_unfilled_tp_limit_orders order s),
                  tracked_orders :=
                    update_first (\<lambda>tracked_order. order_id tracked_order = order_id order)
                      (terminate now ct) (tracked_orders s)\<rparr>)"
    unfolding close then_do_def
    by (simp add: cancel_take_profit_for_order_def tps for_each_cancel_accepted [OF gw])
qed

lemma check_trading_order_accepted:
  assumes gw: "\<forall>calls. \<exists>r. gw calls = Inr r"
      and f: "float_true_div (limit_take_profit_price_delta_bps (config s)) 10000 = Inr f"
      and filled: "truthy (last_filled_at order)"
  shows "check_trading_order gw md now order s =
           Inr (s\<lparr>gateway_calls := gateway_calls s @ exit_calls f s md now order,
                  tracked_orders := record_exit s md now order (tracked_orders s)\<rparr>)"
proof -
  note cc = close_then_cancel_accepted [OF gw f]
  note tl = time_limit_of_filled_order [OF filled]
  consider (sl) "has_current_price_reached_stop_loss order (mid_price md)"
    | (tp) "\<not> has_current_price_reached_stop_loss order (mid_price md)"
           "get_unfilled_tp_limit_orders order s = [] \<and> has_current_price_reached_take_profit order (mid_price md)"
    | (tl) "\<not> has_current_price_reached_stop_loss order (mid_price md)"
           "\<not> (get_unfilled_tp_limit_orders order s = [] \<and> has_current_price_reached_take_profit order (mid_price md))"
           "time_limit_reached order now"
    | (none) "\<not> has_current_price_reached_stop_loss order (mid_price md)"
           "\<not> (get_unfilled_tp_limit_orders order s = [] \<and> has_current_price_reached_take_profit order (mid_price md))"
           "\<not> time_limit_reached order now"
    by blast
  then show ?thesis
  proof cases
    case sl
    then show ?thesis
      by (simp add: check_trading_order_def exit_calls_def record_exit_def exit_action_def cc(2))
  next
    case tp
    then show ?thesis
      by (simp add: check_trading_order_def exit_calls_def record_exit_def exit_action_def cc(1))
  next
    case tl
    have nb: "(get_unfilled_tp_limit_orders order s = [] \<and>
               has_current_price_reached_take_profit order (mid_price md)) = False"
      using tl(2) by simp
    show ?thesis
      using tl(1) tl(3)
      by (simp add: check_trading_order_def exit_calls_def record_exit_def exit_action_def cc(2) nb
                    time_limit_of_filled_order [OF filled])
  next
    case none
    have nb: "(get_unfilled_tp_limit_orders order s = [] \<and>
               has_current_price_reached_take_profit order (mid_price md)) = False"
      using none(2) by simp
    show ?thesis
      using none(1) none(3)
      by (simp add: check_trading_order_def exit_calls_def record_exit_def exit_action_def nb
                    time_limit_of_filled_order [OF filled])
  qed
qed

lemma for_each_check_trading_order_accepted:
  assumes gw: "\<forall>calls. \<exists>r. gw calls = Inr r"
  shows "float_true_div (limit_take_profit_price_delta_bps (config s)) 10000 = Inr f \<Longrightarrow>
         \<forall>x\<in>set xs. truthy (last_filled_at x) \<Longrightarrow>
         for_each (check_trading_order gw md now) xs s =
           Inr (s\<lparr>gateway_calls := gateway_calls s @ concat (map (exit_calls f s md now) xs),
                  tracked_orders := foldl (\<lambda>orders order. record_exit s md now order orders)
                                          (tracked_orders s) xs\<rparr>)"
proof (induction xs arbitrary: s)
  case Nil
  then show ?case by simp
next
  case (Cons x xs)
  let ?s1 = "s\<lparr>gateway_calls := gateway_calls s @ exit_calls f s md now x,
               tracked_orders := record_exit s md now x (tracked_orders s)\<rparr>"
  have first: "check_trading_order gw md now x s = Inr ?s1"
    using Cons.prems by (intro check_trading_order_accepted [OF gw]) simp_all
  have f1: "float_true_div (limit_take_profit_price_delta_bps (config ?s1)) 10000 = Inr f"
    using Cons.prems(1) by simp
  have tps: "take_profit_limit_orders ?s1 = take_profit_limit_orders s" by simp
  have rest: "for_each (check_trading_order gw md now) xs ?s1 =
           Inr (?s1\<lparr>gateway_calls := gateway_calls ?s1 @ concat (map (exit_calls f ?s1 md now) xs),
                    tracked_orders := foldl (\<lambda>orders order. record_exit ?s1 md now order orders)
                                            (tracked_orders ?s1) xs\<rparr>)"
    using Cons.prems(2) by (intro Cons.IH [OF f1]) simp
  have e: "exit_calls f ?s1 md now = exit_calls f s md now"
    by (rule ext) (rule exit_calls_cong [OF tps])
  have r: "record_exit ?s1 md now = record_exit s md now"
    by (intro ext) (rule record_exit_cong [OF tps])
  show ?case
    using first rest by (simp add: then_do_def e r)
qed

lemma apply_exit_order_id [simp]: "order_id (apply_exit s md now order) = order_id order"
  by (simp add: apply_exit_def split: option.splits)

lemma update_first_on_map:
  assumes "distinct (map order_id orders)" and "x \<in> set orders"
      and "\<And>order. order_id (g order) = order_id order" and "g x = x"
  shows "update_first (\<lambda>order. order_id order = order_id x) h (map g orders) =
           map (\<lambda>order. if order = x then h x else g order) orders"
  using assms(1,2)
proof (induction orders)
  case Nil
  then show ?case by simp
next
  case (Cons a orders)
  have notin: "order_id a \<notin> order_id ` set orders" and d: "distinct (map order_id orders)"
    using Cons.prems(1) by simp_all
  show ?case
  proof (cases "order_id a = order_id x")
    case True
    have "x \<notin> set orders" using notin True by force
    then have ax: "a = x" using Cons.prems(2) by simp
    have "map (\<lambda>order. if order = x then h x else g order) orders = map g orders"
      using \<open>x \<notin> set orders\<close> by (intro map_cong) auto
    then show ?thesis using ax assms(3,4) by simp
  next
    case False
    then have "a \<noteq> x" by auto
    then have "x \<in> set orders" using Cons.prems(2) by simp
    then have "update_first (\<lambda>order. order_id order = order_id x) h (map g orders) =
                 map (\<lambda>order. if order = x then h x else g order) orders"
      using d by (intro Cons.IH)
    then show ?thesis using False \<open>a \<noteq> x\<close> assms(3) by simp
  qed
qed

lemma foldl_record_exit:
  assumes d: "distinct (map order_id orders)"
  shows "set xs \<subseteq> set orders \<Longrightarrow> distinct xs \<Longrightarrow> set xs \<inter> D = {} \<Longrightarrow>
         foldl (\<lambda>registry order. record_exit s md now order registry)
               (map (\<lambda>order. if order \<in> D then apply_exit s md now order else order) orders) xs
           = map (\<lambda>order. if order \<in> D \<union> set xs then apply_exit s md now order else order) orders"
proof (induction xs arbitrary: D)
  case Nil
  then show ?case by simp
next
  case (Cons x xs)
  let ?g = "\<lambda>order. if order \<in> D then apply_exit s md now order else order"
  let ?g' = "\<lambda>order. if order \<in> insert x D then apply_exit s md now order else order"
  have x: "x \<in> set orders" "x \<notin> D" "x \<notin> set xs" using Cons.prems by auto
  have step: "record_exit s md now x (map ?g orders) = map ?g' orders"
  proof (cases "exit_action s md now x")
    case None
    then have "apply_exit s md now x = x" by (simp add: apply_exit_def)
    then have "map ?g' orders = map ?g orders" by (intro map_cong) auto
    then show ?thesis using None by (simp add: record_exit_def)
  next
    case (Some a)
    obtain mol ct cancel where a: "a = (mol, ct, cancel)" by (cases a)
    have ax: "apply_exit s md now x = terminate now ct x"
      using Some a by (simp add: apply_exit_def terminate_def)
    have "update_first (\<lambda>order. order_id order = order_id x) (terminate now ct) (map ?g orders) =
            map (\<lambda>order. if order = x then terminate now ct x else ?g order) orders"
      using d x(1) x(2) by (intro update_first_on_map) simp_all
    also have "\<dots> = map ?g' orders"
      using ax by (intro map_cong) auto
    finally show ?thesis using Some a by (simp add: record_exit_def)
  qed
  have "foldl (\<lambda>registry order. record_exit s md now order registry) (map ?g' orders) xs =
          map (\<lambda>order. if order \<in> insert x D \<union> set xs then apply_exit s md now order else order) orders"
    using Cons.prems x by (intro Cons.IH) auto
  then show ?case using step by simp
qed

lemma filled_orders_set:
  "set (fst (get_filled_tracked_orders_by_side None s) @ snd (get_filled_tracked_orders_by_side None s))
     = {order \<in> set (tracked_orders s). is_active_filled order}"
proof -
  have "side order = SELL \<or> side order = BUY" for order :: TrackedOrderDetails
    by (cases "side order") simp_all
  then show ?thesis by (auto simp: filled_orders_eq)
qed

lemma filled_orders_distinct:
  assumes "distinct (tracked_orders s)"
  shows "distinct (fst (get_filled_tracked_orders_by_side None s) @ snd (get_filled_tracked_orders_by_side None s))"
  using assms by (auto simp: filled_orders_eq)

lemma filled_orders_filled:
  "x \<in> set (fst (get_filled_tracked_orders_by_side None s) @ snd (get_filled_tracked_orders_by_side None s))
   \<Longrightarrow> truthy (last_filled_at x)"
  using filled_orders_set [of s] by (auto simp: is_active_filled_def)

lemma check_trading_orders_accepted:
  assumes gw: "\<forall>calls. \<exists>r. gw calls = Inr r"
      and f: "float_true_div (limit_take_profit_price_delta_bps (config s)) 10000 = Inr f"
      and d: "distinct (map order_id (tracked_orders s))"
  shows "check_trading_orders gw md now s =
           Inr (s\<lparr>gateway_calls := gateway_calls s @
                    concat (map (exit_calls f s md now)
                              (fst (get_filled_tracked_orders_by_side None s) @
                               snd (get_filled_tracked_orders_by_side None s))),
                  tracked_orders :=
                    map (\<lambda>order. if is_active_filled order then apply_exit s md now order else order)
                        (tracked_orders s)\<rparr>)"
proof -
  let ?xs = "fst (get_filled_tracked_orders_by_side None s) @ snd (get_filled_tracked_orders_by_side None s)"
  have filled: "\<forall>x\<in>set ?xs. truthy (last_filled_at x)"
    using filled_orders_filled by blast
  have dt: "distinct (tracked_orders s)" using d by (simp add: distinct_map)
  have sub: "set ?xs \<subseteq> set (tracked_orders s)" using filled_orders_set [of s] by auto
  have "foldl (\<lambda>registry order. record_exit s md now order registry)
              (map (\<lambda>order. if order \<in> {} then apply_exit s md now order else order) (tracked_orders s)) ?xs
          = map (\<lambda>order. if order \<in> {} \<union> set ?xs then apply_exit s md now order else order) (tracked_orders s)"
    using sub filled_orders_distinct [OF dt] by (intro foldl_record_exit [OF d]) simp_all
  then have "foldl (\<lambda>registry order. record_exit s md now order registry) (tracked_orders s) ?xs
          = map (\<lambda>order. if order \<in> set ?xs then apply_exit s md now order else order) (tracked_orders s)"
    by simp
  also have "\<dots> = map (\<lambda>order. if is_active_filled order then apply_exit s md now order else order)
                       (tracked_orders s)"
    using filled_orders_set [of s] by (intro map_cong) auto
  finally have fold: "foldl (\<lambda>registry order. record_exit s md now order registry) (tracked_orders s) ?xs
          = map (\<lambda>order. if is_active_filled order then apply_exit s md now order else order)
                (tracked_orders s)" .
  show ?thesis
    unfolding check_trading_orders_unfold
    using for_each_check_trading_order_accepted [OF gw f filled, of md now]
    by (simp only: fold)
qed

lemma check_orders_accepted:
  assumes gw: "\<forall>calls. \<exists>r. gw calls = Inr r"
      and f: "float_true_div (limit_take_profit_price_delta_bps (config s)) 10000 = Inr f"
      and d: "distinct (map order_id (tracked_orders s))"
  shows "check_orders gw md now s =
           Inr (s\<lparr>gateway_calls := gateway_calls s @ expiry_calls s now @
                    concat (map (exit_calls f s md now)
                              (fst (get_filled_tracked_orders_by_side None s) @
                               snd (get_filled_tracked_orders_by_side None s))),
                  tracked_orders :=
                    map (\<lambda>order. if is_active_filled order then apply_exit s md now order else order)
                        (tracked_orders s)\<rparr>)"
proof -
  let ?s1 = "s\<lparr>gateway_calls := gateway_calls s @ expiry_calls s now\<rparr>"
  have first: "check_unfilled_orders gw now s = Inr ?s1"
    by (rule check_unfilled_orders_accepted [OF gw])
  have f1: "float_true_div (limit_take_profit_price_delta_bps (config ?s1)) 10000 = Inr f"
    using f by simp
  have d1: "distinct (map order_id (tracked_orders ?s1))" using d by simp
  have tps: "take_profit_limit_orders ?s1 = take_profit_limit_orders s" by simp
  have filled: "get_filled_tracked_orders_by_side None ?s1 = get_filled_tracked_orders_by_side None s"
    by (simp add: get_filled_tracked_orders_by_side_def get_active_tracked_orders_by_side_def
                  get_active_tracked_orders_def)
  have e: "exit_calls f ?s1 md now = exit_calls f s md now"
    by (rule ext) (rule exit_calls_cong [OF tps])
  have a: "apply_exit ?s1 md now = apply_exit s md now"
    by (rule ext) (simp add: apply_exit_def exit_action_cong [OF tps])
  show ?thesis
    unfolding check_orders_def first then_do_def
    using check_trading_orders_accepted [OF gw f1 d1, of md now]
    by (simp add: filled e a)
qed

lemma cancel_take_profit_for_order_keeps_config:
  "config (state_of (cancel_take_profit_for_order gw filled_order s)) = config s"
  unfolding cancel_take_profit_for_order_def
  by (rule for_each_preserves [where R = "\<lambda>s t. config t = config s"])
     (auto simp: cancel_tp_limit_order_cases split: sum.splits)

lemma then_cancel_keeps_more:
  "take_profit_limit_orders (state_of (then_do r (cancel_take_profit_for_order gw filled_order)))
     = take_profit_limit_orders (state_of r)
   \<and> config (state_of (then_do r (cancel_take_profit_for_order gw filled_order))) = config (state_of r)"
  by (cases r)
     (auto simp: then_do_def cancel_take_profit_for_order_keeps cancel_take_profit_for_order_keeps_config)

lemma close_filled_order_logs:
  assumes "float_true_div (limit_take_profit_price_delta_bps (config s)) 10000 = Inr f"
  shows "close_calls (state_of (close_filled_order gw md now order mol ct s)) =
           close_calls s @ [close_call f md order mol]"
    and "take_profit_limit_orders (state_of (close_filled_order gw md now order mol ct s)) =
           take_profit_limit_orders s"
    and "config (state_of (close_filled_order gw md now order mol ct s)) = config s"
  using assms by (simp_all add: close_filled_order_cases close_calls_def split: sum.splits)

lemma filter_close_call_cancels:
  "filter is_close_call (map (\<lambda>tp. Cancel (c tp) (p tp) (i tp)) tps) = []"
  by (induction tps) (simp_all add: is_close_call_def)

lemma exit_close_calls:
  "filter is_close_call (exit_calls f s md now order) =
     (case exit_action s md now order of
        None \<Rightarrow> []
      | Some (mol, ct, cancel) \<Rightarrow> [close_call f md order mol])"
  by (simp add: exit_calls_def filter_close_call_cancels split: option.splits)

lemma check_trading_order_logs:
  assumes f: "float_true_div (limit_take_profit_price_delta_bps (config s)) 10000 = Inr f"
      and filled: "truthy (last_filled_at order)"
  shows "close_calls (state_of (check_trading_order gw md now order s)) =
           close_calls s @ filter is_close_call (exit_calls f s md now order)"
    and "take_profit_limit_orders (state_of (check_trading_order gw md now order s)) =
           take_profit_limit_orders s"
    and "config (state_of (check_trading_order gw md now order s)) = config s"
proof -
  note cl = close_filled_order_logs [OF f]
  note tl = time_limit_of_filled_order [OF filled]
  have both: "close_calls (state_of (check_trading_order gw md now order s)) =
                close_calls s @ filter is_close_call (exit_calls f s md now order)
              \<and> take_profit_limit_orders (state_of (check_trading_order gw md now order s)) =
                take_profit_limit_orders s
              \<and> config (state_of (check_trading_order gw md now order s)) = config s"
  proof (cases "has_current_price_reached_stop_loss order (mid_price md)")
    case True
    then show ?thesis
      by (simp add: check_trading_order_def exit_close_calls exit_action_def
                    then_cancel_keeps then_cancel_keeps_more cl)
  next
    case nsl: False
    show ?thesis
    proof (cases "get_unfilled_tp_limit_orders order s = [] \<and>
                  has_current_price_reached_take_profit order (mid_price md)")
      case True
      then show ?thesis
        using nsl by (simp add: check_trading_order_def exit_close_calls exit_action_def cl)
    next
      case False
      then have nb: "(get_unfilled_tp_limit_orders order s = [] \<and>
                      has_current_price_reached_take_profit order (mid_price md)) = False"
        by simp
      show ?thesis
      proof (cases "time_limit_reached order now")
        case True
        then show ?thesis
          using nsl
          by (simp add: check_trading_order_def exit_close_calls exit_action_def nb tl
                        then_cancel_keeps then_cancel_keeps_more cl)
      next
        case False
        then show ?thesis
          using nsl by (simp add: check_trading_order_def exit_close_calls exit_action_def nb tl)
      qed
    qed
  qed
  show "close_calls (state_of (check_trading_order gw md now order s)) =
           close_calls s @ filter is_close_call (exit_calls f s md now order)"
    and "take_profit_limit_orders (state_of (check_trading_order gw md now order s)) =
           take_profit_limit_orders s"
    and "config (state_of (check_trading_order gw md now order s)) = config s"
    using both by simp_all
qed

lemma for_each_check_trading_order_logs:
  "float_true_div (limit_take_profit_price_delta_bps (config s)) 10000 = Inr f \<Longrightarrow>
   \<forall>x\<in>set xs. truthy (last_filled_at x) \<Longrightarrow>
   \<exists>k\<le>length xs.
     close_calls (state_of (for_each (check_trading_order gw md now) xs s)) =
       close_calls s @ concat (map (\<lambda>order. filter is_close_call (exit_calls f s md now order)) (take k xs))"
proof (induction xs arbitrary: s)
  case Nil
  then show ?case by simp
next
  case (Cons x xs)
  have fx: "truthy (last_filled_at x)" using Cons.prems(2) by simp
  note logs = check_trading_order_logs [OF Cons.prems(1) fx, of gw md now]
  show ?case
  proof (cases "check_trading_order gw md now x s")
    case (Inl a)
    then have "close_calls (state_of (for_each (check_trading_order gw md now) (x # xs) s)) =
                 close_calls s @ concat (map (\<lambda>order. filter is_close_call (exit_calls f s md now order))
                                             (take 1 (x # xs)))"
      using logs(1) by (simp add: then_do_def)
    then show ?thesis by (intro exI [of _ 1]) simp
  next
    case (Inr t)
    have ft: "float_true_div (limit_take_profit_price_delta_bps (config t)) 10000 = Inr f"
      using logs(3) Inr Cons.prems(1) by simp
    have tps: "take_profit_limit_orders t = take_profit_limit_orders s"
      using logs(2) Inr by simp
    have e: "exit_calls f t md now = exit_calls f s md now"
      by (rule ext) (rule exit_calls_cong [OF tps])
    obtain k where k: "k \<le> length xs"
        "close_calls (state_of (for_each (check_trading_order gw md now) xs t)) =
           close_calls t @ concat (map (\<lambda>order. filter is_close_call (exit_calls f t md now order)) (take k xs))"
      using Cons.IH [OF ft] Cons.prems(2) by auto
    have "close_calls (state_of (for_each (check_trading_order gw md now) (x # xs) s)) =
            close_calls s @ concat (map (\<lambda>order. filter is_close_call (exit_calls f s md now order))
                                        (take (Suc k) (x # xs)))"
      using k(2) logs(1) Inr by (simp add: then_do_def e)
    then show ?thesis using k(1) by (intro exI [of _ "Suc k"]) simp
  qed
qed

lemma check_unfilled_orders_keeps_more:
  "take_profit_limit_orders (state_of (check_unfilled_orders gw now s)) = take_profit_limit_orders s
   \<and> config (state_of (check_unfilled_orders gw now s)) = config s"
proof (cases "unfilled_order_expiration (config s) = 0")
  case True
  then show ?thesis by (simp add: check_unfilled_orders_def)
next
  case False
  obtain ss bs where sb: "get_unfilled_tracked_orders_by_side None s = (ss, bs)"
    by (cases "get_unfilled_tracked_orders_by_side None s")
  let ?t = "state_of (for_each (\<lambda>unfilled_order s'.
                           if has_unfilled_order_expired unfilled_order (unfilled_order_expiration (config s)) now
                           then cancel_unfilled_order gw unfilled_order s' else Inr s')
                        (ss @ bs) s)"
  have "take_profit_limit_orders ?t = take_profit_limit_orders s \<and> config ?t = config s"
    by (rule for_each_preserves
          [where R = "\<lambda>s t. take_profit_limit_orders t = take_profit_limit_orders s \<and> config t = config s"])
       (auto simp: cancel_unfilled_order_cases split: sum.splits)
  then show ?thesis using False sb by (simp add: check_unfilled_orders_def)
qed

lemma check_orders_logs:
  assumes f: "float_true_div (limit_take_profit_price_delta_bps (config s)) 10000 = Inr f"
  shows "\<exists>k\<le>length (fst (get_filled_tracked_orders_by_side None s) @
                      snd (get_filled_tracked_orders_by_side None s)).
           close_calls (state_of (check_orders gw md now s)) =
             close_calls s @
             concat (map (\<lambda>order. filter is_close_call (exit_calls f s md now order))
                         (take k (fst (get_filled_tracked_orders_by_side None s) @
                                  snd (get_filled_tracked_orders_by_side None s))))"
proof (cases "check_unfilled_orders gw now s")
  case (Inl a)
  then have "close_calls (state_of (check_orders gw md now s)) = close_calls s"
    using check_unfilled_orders_keeps [of gw now s] by (simp add: check_orders_def then_do_def)
  then show ?thesis by (intro exI [of _ 0]) simp
next
  case (Inr t)
  let ?xs = "fst (get_filled_tracked_orders_by_side None s) @ snd (get_filled_tracked_orders_by_side None s)"
  have keep: "close_calls t = close_calls s" "tracked_orders t = tracked_orders s"
             "take_profit_limit_orders t = take_profit_limit_orders s" "config t = config s"
    using Inr check_unfilled_orders_keeps [of gw now s] check_unfilled_orders_keeps_more [of gw now s]
    by simp_all
  have ft: "float_true_div (limit_take_profit_price_delta_bps (config t)) 10000 = Inr f"
    using f keep(4) by simp
  have xs: "fst (get_filled_tracked_orders_by_side None t) @ snd (get_filled_tracked_orders_by_side None t) = ?xs"
    by (simp add: filled_orders_eq keep(2))
  have filled: "\<forall>x\<in>set ?xs. truthy (last_filled_at x)"
    using filled_orders_filled by blast
  have e: "exit_calls f t md now = exit_calls f s md now"
    by (rule ext) (rule exit_calls_cong [OF keep(3)])
  obtain k where k: "k \<le> length ?xs"
      "close_calls (state_of (for_each (check_trading_order gw md now) ?xs t)) =
         close_calls t @ concat (map (\<lambda>order. filter is_close_call (exit_calls f t md now order)) (take k ?xs))"
    using for_each_check_trading_order_logs [OF ft filled, of gw md now] by auto
  have "close_calls (state_of (check_orders gw md now s)) =
          close_calls s @ concat (map (\<lambda>order. filter is_close_call (exit_calls f s md now order)) (take k ?xs))"
    using k(2) Inr by (simp add: check_orders_def then_do_def check_trading_orders_unfold xs e keep(1))
  then show ?thesis using k(1) by blast
qed

text \<open>
  C6. One tick of \<open>check_orders\<close>, on a registry with distinct order ids, with an exchange
  that accepts every call and a price buffer that does not overflow: the tick returns; after
  the cancellations of the expired unfilled orders, the exchange calls of the tick are, for
  each active filled order in turn (sells first, then buys, in registry order), the calls of
  the one exit the specification prescribes for it and nothing else, so at most one closing
  call for each order; and each active filled order is left as that exit leaves it, every
  other order as it was. In particular an active filled order that has reached its stop-loss
  ends the tick with close type STOP_LOSS at \<open>now\<close>, by a MARKET closing call followed by the
  cancellation of its unfilled take-profit orders, whether or not its time limit is reached
  too. Whatever the exchange answers, accepting or raising, the closing calls of a tick are
  those single closing calls of the orders the loop has reached, in loop order, and so their
  number is at most the number of active filled orders.
\<close>

theorem check_orders_one_exit_per_order:
  "length (close_calls (state_of (check_orders gw md now s)))
     \<le> length (close_calls s) + length (filter is_active_filled (tracked_orders s))
   \<and> (float_true_div (limit_take_profit_price_delta_bps (config s)) 10000 = Inr f \<longrightarrow>
        (\<exists>k\<le>length (fst (get_filled_tracked_orders_by_side None s) @
                         snd (get_filled_tracked_orders_by_side None s)).
           close_calls (state_of (check_orders gw md now s)) =
             close_calls s @
             concat (map (\<lambda>order. filter is_close_call (exit_calls f s md now order))
                         (take k (fst (get_filled_tracked_orders_by_side None s) @
                                  snd (get_filled_tracked_orders_by_side None s))))))
   \<and> ((\<forall>calls. \<exists>r. gw calls = Inr r) \<and>
      float_true_div (limit_take_profit_price_delta_bps (config s)) 10000 = Inr f \<and>
      distinct (map order_id (tracked_orders s)) \<longrightarrow>
        check_orders gw md now s =
          Inr (s\<lparr>gateway_calls := gateway_calls s @ expiry_calls s now @
                   concat (map (exit_calls f s md now)
                             (fst (get_filled_tracked_orders_by_side None s) @
                              snd (get_filled_tracked_orders_by_side None s))),
                 tracked_orders :=
                   map (\<lambda>order. if is_active_filled order then apply_exit s md now order else order)
                       (tracked_orders s)\<rparr>)
        \<and> (\<forall>i<length (tracked_orders s).
              is_active_filled (tracked_orders s ! i) \<and>
              has_current_price_reached_stop_loss (tracked_orders s ! i) (mid_price md) \<longrightarrow>
                tracked_orders (state_of (check_orders gw md now s)) ! i =
                  (tracked_orders s ! i)\<lparr>terminated_at := Some now, close_type := Some STOP_LOSS\<rparr>))
   \<and> (has_current_price_reached_stop_loss order (mid_price md) \<longrightarrow>
        exit_calls f s md now order =
          close_call f md order MARKET #
          map (\<lambda>tp. Cancel (connector_name order) (trading_pair order) (tp_order_id tp))
              (get_unfilled_tp_limit_orders order s))
   \<and> length (filter is_close_call (exit_calls f s md now order)) \<le> 1"
proof (intro conjI impI)
  show "length (close_calls (state_of (check_orders gw md now s)))
     \<le> length (close_calls s) + length (filter is_active_filled (tracked_orders s))"
    by (rule check_orders_length)
next
  assume "float_true_div (limit_take_profit_price_delta_bps (config s)) 10000 = Inr f"
  then show "\<exists>k\<le>length (fst (get_filled_tracked_orders_by_side None s) @
                         snd (get_filled_tracked_orders_by_side None s)).
           close_calls (state_of (check_orders gw md now s)) =
             close_calls s @
             concat (map (\<lambda>order. filter is_close_call (exit_calls f s md now order))
                         (take k (fst (get_filled_tracked_orders_by_side None s) @
                                  snd (get_filled_tracked_orders_by_side None s))))"
    by (rule check_orders_logs)
next
  assume h: "(\<forall>calls. \<exists>r. gw calls = Inr r) \<and>
      float_true_div (limit_take_profit_price_delta_bps (config s)) 10000 = Inr f \<and>
      distinct (map order_id (tracked_orders s))"
  then show tick: "check_orders gw md now s =
          Inr (s\<lparr>gateway_calls := gateway_calls s @ expiry_calls s now @
                   concat (map (exit_calls f s md now)
                             (fst (get_filled_tracked_orders_by_side None s) @
                              snd (get_filled_tracked_orders_by_side None s))),
                 tracked_orders :=
                   map (\<lambda>order. if is_active_filled order then apply_exit s md now order else order)
                       (tracked_orders s)\<rparr>)"
    by (intro check_orders_accepted) simp_all
  show "\<forall>i<length (tracked_orders s).
              is_active_filled (tracked_orders s ! i) \<and>
              has_current_price_reached_stop_loss (tracked_orders s ! i) (mid_price md) \<longrightarrow>
                tracked_orders (state_of (check_orders gw md now s)) ! i =
                  (tracked_orders s ! i)\<lparr>terminated_at := Some now, close_type := Some STOP_LOSS\<rparr>"
    unfolding tick by (simp add: apply_exit_def exit_action_def)
next
  assume "has_current_price_reached_stop_loss order (mid_price md)"
  then show "exit_calls f s md now order =
          close_call f md order MARKET #
          map (\<lambda>tp. Cancel (connector_name order) (trading_pair order) (tp_order_id tp))
              (get_unfilled_tp_limit_orders order s)"
    by (simp add: exit_calls_def exit_action_def)
next
  show "length (filter is_close_call (exit_calls f s md now order)) \<le> 1"
    by (simp add: exit_calls_def is_close_call_def filter_map comp_def split: option.splits)
qed

theorem check_orders_one_exit_per_order_witness:
  "has_current_price_reached_stop_loss (example_order SELL ''a'') (mid_price (example_market\<lparr>mid_price := 103\<rparr>))
   \<and> time_limit_reached (example_order SELL ''a'') 2000
   \<and> check_orders accepting_gateway (example_market\<lparr>mid_price := 103\<rparr>) 2000
       (example_strategy [example_order SELL ''a'', example_order BUY ''b'']
                         [example_take_profit ''tp'' (example_order SELL ''a'')])
     = Inr ((example_strategy
               [(example_order SELL ''a'')\<lparr>terminated_at := Some 2000, close_type := Some STOP_LOSS\<rparr>,
                (example_order BUY ''b'')\<lparr>terminated_at := Some 2000, close_type := Some TIME_LIMIT\<rparr>]
               [example_take_profit ''tp'' (example_order SELL ''a'')])
            \<lparr>gateway_calls := [Buy ''hyperliquid_perpetual'' ''BTC-USD'' 2 MARKET 99 CLOSE,
                               Cancel ''hyperliquid_perpetual'' ''BTC-USD'' ''tp'',
                               Sell ''hyperliquid_perpetual'' ''BTC-USD'' 2 MARKET 101 CLOSE]\<rparr>)"
proof -
  let ?a = "example_order SELL ''a''"
  let ?b = "example_order BUY ''b''"
  let ?tp = "example_take_profit ''tp'' ?a"
  let ?md = "example_market\<lparr>mid_price := 103\<rparr>"
  let ?s = "example_strategy [?a, ?b] [?tp]"
  have sl: "has_current_price_reached_stop_loss ?a (mid_price ?md)"
    by (simp add: has_current_price_reached_stop_loss_def compute_stop_loss_price_def ref_price_of_def
                  truthy_def example_order_def example_barrier_def)
  have nsl: "\<not> has_current_price_reached_stop_loss ?b (mid_price ?md)"
    by (simp add: has_current_price_reached_stop_loss_def compute_stop_loss_price_def ref_price_of_def
                  truthy_def example_order_def example_barrier_def)
  have ntp: "\<not> has_current_price_reached_take_profit ?b (mid_price ?md)"
    by (simp add: has_current_price_reached_take_profit_def compute_take_profit_price_def ref_price_of_def
                  truthy_def example_order_def example_barrier_def)
  have tl: "time_limit_reached ?a 2000" "time_limit_reached ?b 2000"
    by (simp_all add: time_limit_reached_def example_order_def example_barrier_def)
  have gw: "\<forall>calls. \<exists>r. accepting_gateway calls = Inr r"
    by (simp add: accepting_gateway_def)
  have d: "distinct (map order_id (tracked_orders ?s))"
    by (simp add: example_strategy_def example_order_def)
  have active: "is_active_filled ?a" "is_active_filled ?b"
    by (simp_all add: is_active_filled_def truthy_def example_order_def)
  have filled: "fst (get_filled_tracked_orders_by_side None ?s) @ snd (get_filled_tracked_orders_by_side None ?s)
                  = [?a, ?b]"
    using active by (simp add: filled_orders_eq) (simp add: example_strategy_def example_order_def)
  have expiry: "expiry_calls ?s 2000 = []"
    by (simp add: expiry_calls_def get_unfilled_tracked_orders_by_side_def
                  get_active_tracked_orders_by_side_def get_active_tracked_orders_def truthy_def
                  example_strategy_def example_order_def)
  have tps: "get_unfilled_tp_limit_orders ?a ?s = [?tp]" "get_unfilled_tp_limit_orders ?b ?s = []"
    by (simp_all add: get_unfilled_tp_limit_orders_def get_all_unfilled_tp_limit_orders_def truthy_def
                      example_strategy_def example_take_profit_def example_order_def)
  have ea: "exit_action ?s ?md 2000 ?a = Some (MARKET, STOP_LOSS, True)"
    using sl by (simp add: exit_action_def)
  have eb: "exit_action ?s ?md 2000 ?b = Some (MARKET, TIME_LIMIT, True)"
    using nsl ntp tl(2) by (simp add: exit_action_def) (simp add: example_order_def example_barrier_def)
  have prices: "close_price_sell ?md 0 = 99" "close_price_buy ?md 0 = 101"
    by (simp_all add: close_price_sell_0 close_price_buy_0 example_market_def)
  have ca: "exit_calls 0 ?s ?md 2000 ?a =
              [Buy ''hyperliquid_perpetual'' ''BTC-USD'' 2 MARKET 99 CLOSE,
               Cancel ''hyperliquid_perpetual'' ''BTC-USD'' ''tp'']"
    by (simp add: exit_calls_def ea tps close_call_def prices)
       (simp add: example_order_def example_take_profit_def)
  have cb: "exit_calls 0 ?s ?md 2000 ?b = [Sell ''hyperliquid_perpetual'' ''BTC-USD'' 2 MARKET 101 CLOSE]"
    by (simp add: exit_calls_def eb tps close_call_def prices) (simp add: example_order_def)
  have aa: "apply_exit ?s ?md 2000 ?a = ?a\<lparr>terminated_at := Some 2000, close_type := Some STOP_LOSS\<rparr>"
           "apply_exit ?s ?md 2000 ?b = ?b\<lparr>terminated_at := Some 2000, close_type := Some TIME_LIMIT\<rparr>"
    by (simp_all add: apply_exit_def ea eb)
  have reg: "map (\<lambda>order. if is_active_filled order then apply_exit ?s ?md 2000 order else order)
                 (tracked_orders ?s)
               = [?a\<lparr>terminated_at := Some 2000, close_type := Some STOP_LOSS\<rparr>,
                  ?b\<lparr>terminated_at := Some 2000, close_type := Some TIME_LIMIT\<rparr>]"
    using active aa by (simp add: example_strategy_def)
  have "check_orders accepting_gateway ?md 2000 ?s =
          Inr (?s\<lparr>gateway_calls := gateway_calls ?s @ expiry_calls ?s 2000 @
                   concat (map (exit_calls 0 ?s ?md 2000)
                             (fst (get_filled_tracked_orders_by_side None ?s) @
                              snd (get_filled_tracked_orders_by_side None ?s))),
                 tracked_orders :=
                   map (\<lambda>order. if is_active_filled order then apply_exit ?s ?md 2000 order else order)
                       (tracked_orders ?s)\<rparr>)"
    using gw d example_delta_fraction [of "[?a, ?b]" "[?tp]"]
          check_orders_one_exit_per_order
            [where gw = accepting_gateway and md = ?md and now = 2000 and s = ?s and f = 0]
    by blast
  then have "check_orders accepting_gateway ?md 2000 ?s =
          Inr (?s\<lparr>gateway_calls := gateway_calls ?s @
                   [Buy ''hyperliquid_perpetual'' ''BTC-USD'' 2 MARKET 99 CLOSE,
                    Cancel ''hyperliquid_perpetual'' ''BTC-USD'' ''tp'',
                    Sell ''hyperliquid_perpetual'' ''BTC-USD'' 2 MARKET 101 CLOSE],
                 tracked_orders :=
                   [?a\<lparr>terminated_at := Some 2000, close_type := Some STOP_LOSS\<rparr>,
                    ?b\<lparr>terminated_at := Some 2000, close_type := Some TIME_LIMIT\<rparr>]\<rparr>)"
    by (simp only: filled expiry reg ca cb list.map concat.simps append.simps)
  then show ?thesis
    using sl tl(1) by (simp add: example_strategy_def)
qed

section \<open>A whole life of one order\<close>

text \<open>
  C8. Start from empty registries. Create one order whose barrier has a nonzero take-profit
  delta and the LIMIT take-profit order type (the entry price is not zero, and neither is the
  take-profit price computed from the fill price, so that no division raises). The exchange
  returns \<open>oid\<close> for the order and \<open>tp_oid\<close> for the take-profit order. Confirm the creation,
  fill the order with one entry fill of its whole amount, then fill the take-profit order with
  one fill of the same amount, at a timestamp that is not zero. No step raises, and at the end
  the registry holds exactly one tracked order, with the exchange order id of the
  confirmation, terminated at the timestamp of the last fill with close type TAKE_PROFIT,
  and exactly one take-profit order, whose filled amount is its amount; no tracked order is
  active.
\<close>

theorem create_confirm_fill_take_profit_round_trip:
  assumes empty: "tracked_orders s = []" "take_profit_limit_orders s = []"
      and tb: "take_profit_delta tb = Some delta" "delta \<noteq> 0" "take_profit_order_type tb = LIMIT"
      and prices: "entry_price' \<noteq> 0" "compute_take_profit_price sd (fe_price entry_fill) delta \<noteq> 0"
      and gw: "\<forall>calls. gw calls = Inr oid" "\<forall>calls. gw' calls = Inr tp_oid"
      and created: "ce_order_id created_event = oid" "\<not> is_close_or_absent (ce_position created_event)"
      and entry: "fe_order_id entry_fill = oid" "\<not> is_close_or_absent (fe_position entry_fill)"
                 "fe_amount entry_fill = amount_quote / entry_price'"
      and exit: "fe_order_id tp_fill = tp_oid" "is_close_or_absent (fe_position tp_fill)"
                "fe_amount tp_fill = amount_quote / entry_price'" "fe_timestamp tp_fill \<noteq> 0"
  shows "\<exists>s1 s3 s4 order tp.
           create_order gw t_create sd entry_price' tb amount_quote r s = Inr s1
         \<and> did_fill_order gw' t_entry entry_fill
             (if sd = SELL then did_create_sell_order created_event s1
              else did_create_buy_order created_event s1) = Inr s3
         \<and> did_fill_order gw'' t_exit tp_fill s3 = Inr s4
         \<and> tracked_orders s4 = [order]
         \<and> exchange_order_id order = ce_exchange_order_id created_event
         \<and> terminated_at order = Some (fe_timestamp tp_fill)
         \<and> close_type order = Some TAKE_PROFIT
         \<and> take_profit_limit_orders s4 = [tp]
         \<and> tp_order_id tp = tp_oid
         \<and> tp_filled_amount tp = tp_amount tp
         \<and> get_active_tracked_orders None s4 = []"
proof -
  obtain ec where ec: "get_executor_config s t_create sd entry_price' amount_quote = Inr ec"
      "ec_side ec = sd" "ec_amount ec = amount_quote / entry_price'"
    using prices(1) by (simp add: get_executor_config_def)
  let ?o1 = "new_tracked_order ec sd oid tb r t_create"
  obtain s1 where s1: "create_order gw t_create sd entry_price' tb amount_quote r s = Inr s1"
      "tracked_orders s1 = [?o1]" "take_profit_limit_orders s1 = []"
    using ec gw(1) empty
    by (cases sd) (simp_all add: create_order_def create_individual_order_def call_gateway_def Let_def)
  let ?o2 = "?o1\<lparr>exchange_order_id := ce_exchange_order_id created_event\<rparr>"
  let ?s2 = "if sd = SELL then did_create_sell_order created_event s1
             else did_create_buy_order created_event s1"
  have s2: "tracked_orders ?s2 = [?o2]" "take_profit_limit_orders ?s2 = []"
    using s1 created by (simp_all add: did_create_sell_order_def did_create_buy_order_def new_tracked_order_def)
  let ?o3 = "fill_tracked_order entry_fill ?o2"
  let ?price = "compute_take_profit_price sd (fe_price entry_fill) delta"
  let ?tp3 = "new_tp_limit_order tp_oid ?o3 (fe_amount entry_fill) ?price t_entry"
  have tp_created: "\<exists>s3. create_tp_limit_order gw' t_entry ?o3 (fe_amount entry_fill) ?price s' = Inr s3
                        \<and> tracked_orders s3 = tracked_orders s'
                        \<and> take_profit_limit_orders s3 = take_profit_limit_orders s' @ [?tp3]" for s'
    using prices(2) gw(2)
    by (simp add: create_tp_limit_order_def get_executor_config_def call_gateway_def Let_def
                  fill_tracked_order_def new_tracked_order_def)
  let ?s2' = "?s2\<lparr>tracked_orders := [?o3]\<rparr>"
  from tp_created [of ?s2'] obtain s3 where
    c3: "create_tp_limit_order gw' t_entry ?o3 (fe_amount entry_fill) ?price ?s2' = Inr s3"
    and tr3: "tracked_orders s3 = [?o3]" and tp3: "take_profit_limit_orders s3 = [?tp3]"
    using s2 by auto
  have f3: "did_fill_order gw' t_entry entry_fill ?s2 = Inr s3"
    using c3 s2 entry tb
    by (simp add: did_fill_order_def truthy_def new_tracked_order_def Let_def)
  let ?tp4 = "fill_tp_limit_order tp_fill ?tp3"
  let ?o4 = "reduce_tracked_order tp_fill ?o3"
  let ?s4 = "s3\<lparr>take_profit_limit_orders := [?tp4], tracked_orders := [?o4]\<rparr>"
  have f4: "did_fill_order gw'' t_exit tp_fill s3 = Inr ?s4"
    using tr3 tp3 exit
    by (simp add: did_fill_order_def new_tp_limit_order_def fill_tracked_order_def new_tracked_order_def)
  have zero: "filled_amount ?o3 - fe_amount tp_fill = 0"
    using entry(3) exit(3) by (simp add: fill_tracked_order_def new_tracked_order_def)
  have o4: "exchange_order_id ?o4 = ce_exchange_order_id created_event"
           "terminated_at ?o4 = Some (fe_timestamp tp_fill)" "close_type ?o4 = Some TAKE_PROFIT"
    using zero by (simp_all add: reduce_tracked_order_def Let_def fill_tracked_order_def new_tracked_order_def)
  have tp4: "tp_order_id ?tp4 = tp_oid" "tp_filled_amount ?tp4 = tp_amount ?tp4"
    using entry(3) exit(3) by (simp_all add: fill_tp_limit_order_def new_tp_limit_order_def)
  have act: "get_active_tracked_orders None ?s4 = []"
    using o4(2) exit(4) by (simp add: get_active_tracked_orders_def truthy_def)
  show ?thesis
    using s1(1) f3 f4 o4 tp4 act
    by (intro exI [of _ s1] exI [of _ s3] exI [of _ ?s4] exI [of _ ?o4] exI [of _ ?tp4]) simp
qed

theorem create_confirm_fill_take_profit_round_trip_witness:
  "create_order (constant_gateway ''o1'') 1000 BUY 100 example_barrier 200 ''R'' (example_strategy [] [])
     = Inr ((example_strategy
               [(example_order BUY ''o1'')
                  \<lparr>filled_amount := 0, exchange_order_id := None, last_filled_at := None,
                   last_filled_price := None\<rparr>] [])
            \<lparr>gateway_calls := [Buy ''hyperliquid_perpetual'' ''BTC-USD'' 2 LIMIT 100 NIL]\<rparr>)
   \<and> did_fill_order (constant_gateway ''tp1'') 2000 (example_fill ''tp1'' 2 103 2000 (Some ''CLOSE''))
       (state_of (did_fill_order (constant_gateway ''tp1'') 1010 (example_fill ''o1'' 2 100 1010 (Some ''NIL''))
          (did_create_buy_order
             \<lparr>ce_order_id = ''o1'', ce_exchange_order_id = Some ''x'', ce_position = Some ''NIL''\<rparr>
             (state_of (create_order (constant_gateway ''o1'') 1000 BUY 100 example_barrier 200 ''R''
                          (example_strategy [] []))))))
     = Inr ((example_strategy
               [(example_order BUY ''o1'')
                  \<lparr>filled_amount := 0, terminated_at := Some 2000, close_type := Some TAKE_PROFIT\<rparr>]
               [\<lparr>tp_order_id = ''tp1'', tp_tracked_order = example_order BUY ''o1'', tp_amount = 2,
                 tp_entry_price = 103, tp_created_at = 1010, tp_filled_amount = 2,
                 tp_last_filled_at = Some 2000, tp_last_filled_price = Some 103\<rparr>])
            \<lparr>gateway_calls := [Buy ''hyperliquid_perpetual'' ''BTC-USD'' 2 LIMIT 100 NIL,
                               Sell ''hyperliquid_perpetual'' ''BTC-USD'' 2 LIMIT 103 CLOSE]\<rparr>)"
proof -
  let ?s = "example_strategy [] []"
  let ?created = "\<lparr>ce_order_id = ''o1'', ce_exchange_order_id = Some ''x'', ce_position = Some ''NIL''\<rparr>"
  let ?entry = "example_fill ''o1'' 2 100 1010 (Some ''NIL'')"
  let ?exit = "example_fill ''tp1'' 2 103 2000 (Some ''CLOSE'')"
  have empty: "tracked_orders ?s = []" "take_profit_limit_orders ?s = []"
    by (simp_all add: example_strategy_def)
  have tb: "take_profit_delta example_barrier = Some (3 / 100)" "(3 / 100 :: rat) \<noteq> 0"
           "take_profit_order_type example_barrier = LIMIT"
    by (simp_all add: example_barrier_def)
  have prices: "(100 :: rat) \<noteq> 0" "compute_take_profit_price BUY (fe_price ?entry) (3 / 100) \<noteq> 0"
    by (simp_all add: compute_take_profit_price_def example_fill_def)
  have gw: "\<forall>calls. constant_gateway ''o1'' calls = Inr ''o1''"
           "\<forall>calls. constant_gateway ''tp1'' calls = Inr ''tp1''"
    by (simp_all add: constant_gateway_def)
  have created: "ce_order_id ?created = ''o1''" "\<not> is_close_or_absent (ce_position ?created)"
    by (simp_all add: is_close_or_absent_def PositionAction_value_def)
  have entry: "fe_order_id ?entry = ''o1''" "\<not> is_close_or_absent (fe_position ?entry)"
              "fe_amount ?entry = 200 / 100"
    by (simp_all add: example_fill_def is_close_or_absent_def PositionAction_value_def)
  have exit: "fe_order_id ?exit = ''tp1''" "is_close_or_absent (fe_position ?exit)"
             "fe_amount ?exit = 200 / 100" "fe_timestamp ?exit \<noteq> 0"
    by (simp_all add: example_fill_def is_close_or_absent_def PositionAction_value_def)
  from create_confirm_fill_take_profit_round_trip
         [where s = ?s and tb = example_barrier and delta = "3 / 100" and entry_price' = 100 and sd = BUY and
                entry_fill = ?entry and gw = "constant_gateway ''o1''" and oid = "''o1''" and
                gw' = "constant_gateway ''tp1''" and tp_oid = "''tp1''" and created_event = ?created and
                amount_quote = 200 and tp_fill = ?exit and t_create = 1000 and t_entry = 1010 and t_exit = 2000 and
                r = "''R''" and gw'' = "constant_gateway ''tp1''",
          OF empty tb prices gw created entry exit]
  obtain s1 s3 s4 where
      "create_order (constant_gateway ''o1'') 1000 BUY 100 example_barrier 200 ''R'' ?s = Inr s1"
      "did_fill_order (constant_gateway ''tp1'') 1010 ?entry (did_create_buy_order ?created s1) = Inr s3"
      "did_fill_order (constant_gateway ''tp1'') 2000 ?exit s3 = Inr s4"
    by auto
  moreover have c: "create_order (constant_gateway ''o1'') 1000 BUY 100 example_barrier 200 ''R'' ?s
     = Inr ((example_strategy
               [(example_order BUY ''o1'')
                  \<lparr>filled_amount := 0, exchange_order_id := None, last_filled_at := None,
                   last_filled_price := None\<rparr>] [])
            \<lparr>gateway_calls := [Buy ''hyperliquid_perpetual'' ''BTC-USD'' 2 LIMIT 100 NIL]\<rparr>)"
    by (simp add: create_order_def get_executor_config_def create_individual_order_def call_gateway_def
                  constant_gateway_def new_tracked_order_def example_strategy_def example_config_def
                  example_barrier_def example_order_def Let_def)
  moreover have "did_fill_order (constant_gateway ''tp1'') 2000 ?exit
       (state_of (did_fill_order (constant_gateway ''tp1'') 1010 ?entry
          (did_create_buy_order ?created
             ((example_strategy
               [(example_order BUY ''o1'')
                  \<lparr>filled_amount := 0, exchange_order_id := None, last_filled_at := None,
                   last_filled_price := None\<rparr>] [])
            \<lparr>gateway_calls := [Buy ''hyperliquid_perpetual'' ''BTC-USD'' 2 LIMIT 100 NIL]\<rparr>))))
     = Inr ((example_strategy
               [(example_order BUY ''o1'')
                  \<lparr>filled_amount := 0, terminated_at := Some 2000, close_type := Some TAKE_PROFIT\<rparr>]
               [\<lparr>tp_order_id = ''tp1'', tp_tracked_order = example_order BUY ''o1'', tp_amount = 2,
                 tp_entry_price = 103, tp_created_at = 1010, tp_filled_amount = 2,
                 tp_last_filled_at = Some 2000, tp_last_filled_price = Some 103\<rparr>])
            \<lparr>gateway_calls := [Buy ''hyperliquid_perpetual'' ''BTC-USD'' 2 LIMIT 100 NIL,
                               Sell ''hyperliquid_perpetual'' ''BTC-USD'' 2 LIMIT 103 CLOSE]\<rparr>)"
    by (simp add: did_fill_order_def did_create_buy_order_def is_close_or_absent_def PositionAction_value_def
                  create_tp_limit_order_def get_executor_config_def call_gateway_def constant_gateway_def
                  fill_tracked_order_def fill_tp_limit_order_def reduce_tracked_order_def
                  new_tp_limit_order_def compute_take_profit_price_def truthy_def
                  example_strategy_def example_config_def example_barrier_def example_order_def
                  example_fill_def Let_def)
  ultimately show ?thesis by simp
qed

section \<open>Termination over sequences of operations\<close>

lemma stays_terminated_refl: "stays_terminated xs xs"
  by (simp add: stays_terminated_def)

lemma stays_terminated_trans:
  "stays_terminated xs ys \<Longrightarrow> stays_terminated ys zs \<Longrightarrow> stays_terminated xs zs"
  unfolding stays_terminated_def
  by (metis (no_types, lifting) le_trans less_le_trans)

lemma stays_terminated_append: "stays_terminated xs (xs @ ys)"
  by (simp add: stays_terminated_def nth_append)

lemma update_first_nth:
  "i < length xs \<Longrightarrow> update_first P f xs ! i = xs ! i \<or> update_first P f xs ! i = f (xs ! i)"
proof (induction xs arbitrary: i)
  case Nil
  then show ?case by simp
next
  case (Cons x xs)
  then show ?case by (cases i) auto
qed

lemma update_first_nth_other:
  "i < length xs \<Longrightarrow> \<not> P (xs ! i) \<Longrightarrow> update_first P f xs ! i = xs ! i"
proof (induction xs arbitrary: i)
  case Nil
  then show ?case by simp
next
  case (Cons x xs)
  then show ?case by (cases i) auto
qed

lemma stays_terminated_update_first:
  assumes "\<And>x. order_id (f x) = order_id x"
      and "\<And>x. terminated_at x \<noteq> None \<Longrightarrow> terminated_at (f x) \<noteq> None"
  shows "stays_terminated xs (update_first P f xs)"
  unfolding stays_terminated_def
proof (intro conjI allI impI)
  show "length xs \<le> length (update_first P f xs)" by simp
next
  fix i assume "i < length xs"
  then show "order_id (update_first P f xs ! i) = order_id (xs ! i)"
    using update_first_nth [of i xs P f] assms(1) by auto
next
  fix i assume "i < length xs" "terminated_at (xs ! i) \<noteq> None"
  then show "terminated_at (update_first P f xs ! i) \<noteq> None"
    using update_first_nth [of i xs P f] assms(2) by auto
qed

lemma stays_terminated_close_filled_order:
  "stays_terminated (tracked_orders s)
     (tracked_orders (state_of (close_filled_order gw md now filled_order market_or_limit ct s)))"
  by (auto simp: close_filled_order_cases stays_terminated_refl terminate_def
           intro!: stays_terminated_update_first split: sum.splits)

lemma create_tp_limit_order_tracked_orders:
  "tracked_orders (state_of (create_tp_limit_order gw now tracked_order a p s)) = tracked_orders s"
  by (simp add: create_tp_limit_order_def call_gateway_cases split: sum.splits)

lemma stays_terminated_did_fill_order:
  "stays_terminated (tracked_orders s) (tracked_orders (state_of (did_fill_order gw now filled_event s)))"
  by (auto simp: did_fill_order_def stays_terminated_refl create_tp_limit_order_tracked_orders
                 reduce_tracked_order_def fill_tracked_order_def Let_def
           intro!: stays_terminated_update_first split: option.splits)

lemma stays_terminated_did_cancel_order:
  "stays_terminated (tracked_orders s) (tracked_orders (did_cancel_order now cancelled_event s))"
  by (auto simp: did_cancel_order_def terminate_def intro!: stays_terminated_update_first)

lemma stays_terminated_did_create:
  "stays_terminated (tracked_orders s) (tracked_orders (did_create_sell_order created_event s))"
  "stays_terminated (tracked_orders s) (tracked_orders (did_create_buy_order created_event s))"
  by (auto simp: did_create_sell_order_def did_create_buy_order_def stays_terminated_refl
           intro!: stays_terminated_update_first)

lemma stays_terminated_create_order:
  "stays_terminated (tracked_orders s)
     (tracked_orders (state_of (create_order gw now sd entry_price' tb amount_quote r s)))"
  by (auto simp: create_order_def create_individual_order_def call_gateway_cases
                 stays_terminated_refl stays_terminated_append split: sum.splits)

lemma check_unfilled_orders_tracked_orders:
  "tracked_orders (state_of (check_unfilled_orders gw now s)) = tracked_orders s"
  by (simp add: check_unfilled_orders_keeps)

lemma stays_terminated_check_trading_order:
  "stays_terminated (tracked_orders s) (tracked_orders (state_of (check_trading_order gw md now filled_order s)))"
  by (auto simp: check_trading_order_def then_cancel_keeps stays_terminated_close_filled_order
                 stays_terminated_refl split: sum.splits)

lemma stays_terminated_check_trading_orders:
  "stays_terminated (tracked_orders s) (tracked_orders (state_of (check_trading_orders gw md now s)))"
proof -
  obtain ss bs where sb: "get_filled_tracked_orders_by_side None s = (ss, bs)"
    by (cases "get_filled_tracked_orders_by_side None s")
  have "stays_terminated (tracked_orders s)
          (tracked_orders (state_of (for_each (check_trading_order gw md now) (ss @ bs) s)))"
    by (rule for_each_preserves [where R = "\<lambda>s t. stays_terminated (tracked_orders s) (tracked_orders t)"])
       (auto simp: stays_terminated_check_trading_order stays_terminated_refl
             intro: stays_terminated_trans)
  then show ?thesis using sb by (simp add: check_trading_orders_def)
qed

lemma stays_terminated_check_orders:
  "stays_terminated (tracked_orders s) (tracked_orders (state_of (check_orders gw md now s)))"
proof (cases "check_unfilled_orders gw now s")
  case (Inl a)
  then show ?thesis
    using check_unfilled_orders_tracked_orders [of gw now s]
    by (simp add: check_orders_def then_do_def stays_terminated_refl)
next
  case (Inr s1)
  then have "tracked_orders s1 = tracked_orders s"
    using check_unfilled_orders_tracked_orders [of gw now s] by simp
  then show ?thesis
    using Inr stays_terminated_check_trading_orders [of s1 gw md now]
    by (simp add: check_orders_def then_do_def)
qed

lemma stays_terminated_perform:
  "stays_terminated (tracked_orders s) (tracked_orders (perform operation s))"
  by (cases operation)
     (simp_all add: stays_terminated_create_order stays_terminated_close_filled_order
                    stays_terminated_did_create stays_terminated_did_fill_order
                    stays_terminated_did_cancel_order stays_terminated_check_orders)

lemma stays_terminated_perform_all:
  "stays_terminated (tracked_orders s) (tracked_orders (perform_all operations s))"
proof (induction operations arbitrary: s)
  case Nil
  then show ?case by (simp add: stays_terminated_refl)
next
  case (Cons operation operations)
  have "stays_terminated (tracked_orders s) (tracked_orders (perform operation s))"
    by (rule stays_terminated_perform)
  moreover have "stays_terminated (tracked_orders (perform operation s))
                   (tracked_orders (perform_all operations (perform operation s)))"
    by (rule Cons.IH)
  ultimately show ?case by (simp add: stays_terminated_trans)
qed

lemma changes_only_refl: "changes_only ids xs xs"
  by (simp add: changes_only_def)

lemma changes_only_trans:
  assumes "changes_only ids xs ys" and "changes_only ids ys zs"
  shows "changes_only ids xs zs"
  unfolding changes_only_def
proof (intro conjI allI impI)
  show "map order_id zs = map order_id xs"
    using assms by (simp add: changes_only_def)
next
  fix i assume i: "i < length xs" "order_id (xs ! i) \<notin> ids"
  have "map order_id ys = map order_id xs" using assms(1) by (simp add: changes_only_def)
  then have len: "length ys = length xs" by (rule map_eq_imp_length_eq)
  have xy: "ys ! i = xs ! i" using assms(1) i by (simp add: changes_only_def)
  then have "order_id (ys ! i) \<notin> ids" using i by simp
  then have "zs ! i = ys ! i" using assms(2) i len by (simp add: changes_only_def)
  then show "zs ! i = xs ! i" using xy by simp
qed

lemma changes_only_mono: "changes_only ids xs ys \<Longrightarrow> ids \<subseteq> ids' \<Longrightarrow> changes_only ids' xs ys"
  by (auto simp: changes_only_def)

lemma update_first_map:
  "(\<And>x. g (f x) = g x) \<Longrightarrow> map g (update_first P f xs) = map g xs"
  by (induction xs) auto

lemma changes_only_update_first:
  assumes "\<And>x. order_id (f x) = order_id x"
  shows "changes_only {oid} xs (update_first (\<lambda>order. order_id order = oid) f xs)"
proof -
  have "map order_id (update_first (\<lambda>order. order_id order = oid) f xs) = map order_id xs"
    using assms by (rule update_first_map)
  moreover have "update_first (\<lambda>order. order_id order = oid) f xs ! i = xs ! i"
    if "i < length xs" "order_id (xs ! i) \<noteq> oid" for i
    using that by (simp add: update_first_nth_other)
  ultimately show ?thesis by (simp add: changes_only_def)
qed

lemma changes_only_close_filled_order:
  "changes_only {order_id filled_order} (tracked_orders s)
     (tracked_orders (state_of (close_filled_order gw md now filled_order market_or_limit ct s)))"
proof (cases "float_true_div (limit_take_profit_price_delta_bps (config s)) 10000")
  case (Inl e)
  then show ?thesis by (simp add: close_filled_order_cases changes_only_refl)
next
  case f: (Inr f)
  show ?thesis
  proof (cases "gw (gateway_calls s @ [close_call f md filled_order market_or_limit])")
    case (Inl e)
    then show ?thesis using f by (simp add: close_filled_order_cases changes_only_refl)
  next
    case (Inr r)
    have "changes_only {order_id filled_order} (tracked_orders s)
            (update_first (\<lambda>order. order_id order = order_id filled_order) (terminate now ct) (tracked_orders s))"
      by (rule changes_only_update_first) (simp add: terminate_def)
    then show ?thesis using f Inr by (simp add: close_filled_order_cases)
  qed
qed

lemma changes_only_check_trading_order:
  "changes_only {order_id filled_order} (tracked_orders s)
     (tracked_orders (state_of (check_trading_order gw md now filled_order s)))"
proof -
  have c: "changes_only {order_id filled_order} (tracked_orders s)
             (tracked_orders (state_of (then_do (close_filled_order gw md now filled_order mol ct s)
                                                (cancel_take_profit_for_order gw filled_order))))" for mol ct
    by (simp add: then_cancel_keeps changes_only_close_filled_order)
  show ?thesis
  proof (cases "has_filled_order_reached_time_limit filled_order now")
    case (Inl e)
    then show ?thesis
      by (simp add: check_trading_order_def c changes_only_close_filled_order changes_only_refl)
  next
    case (Inr reached)
    then show ?thesis
      by (simp add: check_trading_order_def c changes_only_close_filled_order changes_only_refl)
  qed
qed

lemma changes_only_for_each_check_trading_order:
  "changes_only (order_id ` set xs) (tracked_orders s)
     (tracked_orders (state_of (for_each (check_trading_order gw md now) xs s)))"
proof (rule for_each_preserves
         [where R = "\<lambda>s t. changes_only (order_id ` set xs) (tracked_orders s) (tracked_orders t)"])
  fix x s assume "x \<in> set xs"
  then have "{order_id x} \<subseteq> order_id ` set xs" by auto
  then show "changes_only (order_id ` set xs) (tracked_orders s)
               (tracked_orders (state_of (check_trading_order gw md now x s)))"
    by (rule changes_only_mono [OF changes_only_check_trading_order])
next
  fix s show "changes_only (order_id ` set xs) (tracked_orders s) (tracked_orders s)"
    by (rule changes_only_refl)
next
  fix s t u
  assume "changes_only (order_id ` set xs) (tracked_orders s) (tracked_orders t)"
         "changes_only (order_id ` set xs) (tracked_orders t) (tracked_orders u)"
  then show "changes_only (order_id ` set xs) (tracked_orders s) (tracked_orders u)"
    by (rule changes_only_trans)
qed

lemma filled_orders_are_active:
  assumes "get_filled_tracked_orders_by_side None s = (ss, bs)" and "x \<in> set (ss @ bs)"
  shows "x \<in> set (tracked_orders s) \<and> \<not> truthy (terminated_at x)"
  using assms
  by (auto simp: get_filled_tracked_orders_by_side_def get_active_tracked_orders_by_side_def
                 get_active_tracked_orders_def Let_def)

lemma check_trading_orders_leaves_terminated:
  assumes i: "i < length (tracked_orders s)" and t: "truthy (terminated_at (tracked_orders s ! i))"
      and d: "distinct (map order_id (tracked_orders s))"
  shows "tracked_orders (state_of (check_trading_orders gw md now s)) ! i = tracked_orders s ! i"
proof -
  obtain ss bs where sb: "get_filled_tracked_orders_by_side None s = (ss, bs)"
    by (cases "get_filled_tracked_orders_by_side None s")
  have inj: "inj_on order_id (set (tracked_orders s))"
    using d by (simp add: distinct_map)
  have "order_id (tracked_orders s ! i) \<notin> order_id ` set (ss @ bs)"
  proof
    assume "order_id (tracked_orders s ! i) \<in> order_id ` set (ss @ bs)"
    then obtain x where x: "x \<in> set (ss @ bs)" "order_id x = order_id (tracked_orders s ! i)"
      by (metis imageE)
    then have xa: "x \<in> set (tracked_orders s)" "\<not> truthy (terminated_at x)"
      using filled_orders_are_active [OF sb x(1)] by simp_all
    have "tracked_orders s ! i \<in> set (tracked_orders s)" using i by simp
    then have "x = tracked_orders s ! i" using inj xa(1) x(2) by (auto dest: inj_onD)
    then show False using xa(2) t by simp
  qed
  then show ?thesis
    using changes_only_for_each_check_trading_order [of "ss @ bs" s gw md now] i sb
    by (simp add: changes_only_def check_trading_orders_def)
qed

lemma check_orders_leaves_terminated:
  assumes i: "i < length (tracked_orders s)" and t: "truthy (terminated_at (tracked_orders s ! i))"
      and d: "distinct (map order_id (tracked_orders s))"
  shows "tracked_orders (state_of (check_orders gw md now s)) ! i = tracked_orders s ! i"
proof (cases "check_unfilled_orders gw now s")
  case (Inl a)
  then show ?thesis
    using check_unfilled_orders_tracked_orders [of gw now s]
    by (simp add: check_orders_def then_do_def)
next
  case (Inr s1)
  then have eq: "tracked_orders s1 = tracked_orders s"
    using check_unfilled_orders_tracked_orders [of gw now s] by simp
  have "tracked_orders (state_of (check_trading_orders gw md now s1)) ! i = tracked_orders s1 ! i"
    using i t d eq by (intro check_trading_orders_leaves_terminated) simp_all
  then show ?thesis using Inr eq by (simp add: check_orders_def then_do_def)
qed

lemma create_order_keeps_nth:
  "i < length (tracked_orders s) \<Longrightarrow>
   tracked_orders (state_of (create_order gw now sd entry_price' tb amount_quote r s)) ! i = tracked_orders s ! i"
  by (auto simp: create_order_def create_individual_order_def call_gateway_cases nth_append
           split: sum.splits)

lemma did_create_keeps_terminated_at:
  assumes "i < length (tracked_orders s)"
  shows "terminated_at (tracked_orders (did_create_sell_order created_event s) ! i) = terminated_at (tracked_orders s ! i)"
    and "terminated_at (tracked_orders (did_create_buy_order created_event s) ! i) = terminated_at (tracked_orders s ! i)"
  using assms
        update_first_nth [of i "tracked_orders s" "\<lambda>tracked_order. order_id tracked_order = ce_order_id created_event"
                            "\<lambda>tracked_order. tracked_order\<lparr>exchange_order_id := ce_exchange_order_id created_event\<rparr>"]
  by (auto simp: did_create_sell_order_def did_create_buy_order_def)

lemma entry_fill_keeps_terminated_at:
  assumes "i < length (tracked_orders s)" and "\<not> is_close_or_absent (fe_position filled_event)"
  shows "terminated_at (tracked_orders (state_of (did_fill_order gw now filled_event s)) ! i)
           = terminated_at (tracked_orders s ! i)"
  using assms
        update_first_nth [of i "tracked_orders s" "\<lambda>order. order_id order = fe_order_id filled_event"
                            "fill_tracked_order filled_event"]
  by (auto simp: did_fill_order_def create_tp_limit_order_tracked_orders fill_tracked_order_def Let_def
           split: option.splits)

text \<open>
  C2, as the code has it. Over every sequence of operations (creating an order, closing a
  filled order, the creation, fill and cancellation events, the periodic check) a tracked
  order keeps its place and its id, and a \<open>terminated_at\<close> that is set is never unset. The
  periodic check leaves an order that is already terminated exactly as it is, when order ids
  are distinct; creating an order, a creation confirmation and an entry fill never assign
  \<open>terminated_at\<close>. Nothing is said here about \<open>close_filled_order\<close>, \<open>did_cancel_order\<close>
  and a take-profit fill: they assign \<open>terminated_at\<close> without looking at its value.
\<close>

theorem terminated_at_stays_set:
  assumes "i < length (tracked_orders s)"
  shows "(terminated_at (tracked_orders s ! i) \<noteq> None \<longrightarrow>
            i < length (tracked_orders (perform_all operations s)) \<and>
            order_id (tracked_orders (perform_all operations s) ! i) = order_id (tracked_orders s ! i) \<and>
            terminated_at (tracked_orders (perform_all operations s) ! i) \<noteq> None)
       \<and> (truthy (terminated_at (tracked_orders s ! i)) \<and> distinct (map order_id (tracked_orders s)) \<longrightarrow>
            tracked_orders (perform (Check_orders gw md now) s) ! i = tracked_orders s ! i)
       \<and> terminated_at (tracked_orders (perform (Create_order gw now sd entry_price' tb amount_quote r) s) ! i)
            = terminated_at (tracked_orders s ! i)
       \<and> terminated_at (tracked_orders (perform (Did_create_sell_order created_event) s) ! i)
            = terminated_at (tracked_orders s ! i)
       \<and> terminated_at (tracked_orders (perform (Did_create_buy_order created_event) s) ! i)
            = terminated_at (tracked_orders s ! i)
       \<and> (\<not> is_close_or_absent (fe_position filled_event) \<longrightarrow>
            terminated_at (tracked_orders (perform (Did_fill_order gw now filled_event) s) ! i)
              = terminated_at (tracked_orders s ! i))"
proof (intro conjI impI)
  assume "terminated_at (tracked_orders s ! i) \<noteq> None"
  then show "i < length (tracked_orders (perform_all operations s))"
    and "order_id (tracked_orders (perform_all operations s) ! i) = order_id (tracked_orders s ! i)"
    and "terminated_at (tracked_orders (perform_all operations s) ! i) \<noteq> None"
    using assms stays_terminated_perform_all [of s operations]
    by (auto simp: stays_terminated_def)
next
  assume "truthy (terminated_at (tracked_orders s ! i)) \<and> distinct (map order_id (tracked_orders s))"
  then show "tracked_orders (perform (Check_orders gw md now) s) ! i = tracked_orders s ! i"
    using assms by (simp add: check_orders_leaves_terminated)
next
  show "terminated_at (tracked_orders (perform (Create_order gw now sd entry_price' tb amount_quote r) s) ! i)
            = terminated_at (tracked_orders s ! i)"
    using assms by (simp add: create_order_keeps_nth)
next
  show "terminated_at (tracked_orders (perform (Did_create_sell_order created_event) s) ! i)
            = terminated_at (tracked_orders s ! i)"
    using assms by (simp add: did_create_keeps_terminated_at)
next
  show "terminated_at (tracked_orders (perform (Did_create_buy_order created_event) s) ! i)
            = terminated_at (tracked_orders s ! i)"
    using assms by (simp add: did_create_keeps_terminated_at)
next
  assume "\<not> is_close_or_absent (fe_position filled_event)"
  then show "terminated_at (tracked_orders (perform (Did_fill_order gw now filled_event) s) ! i)
              = terminated_at (tracked_orders s ! i)"
    using assms by (simp add: entry_fill_keeps_terminated_at)
qed

text \<open>
  C2 as the specification words it fails: an order closed by \<open>close_filled_order\<close> at 2000
  gets \<open>terminated_at\<close> = 3000 from a later cancellation event for its id, and 2500 from a
  later fill of its take-profit order that brings \<open>filled_amount\<close> to 0.
\<close>

theorem terminated_at_set_once_counterexample:
  "terminated_at (example_order SELL ''a'') = None
   \<and> map terminated_at (tracked_orders (perform_all
        [Close_filled_order accepting_gateway example_market 2000 (example_order SELL ''a'') MARKET STOP_LOSS]
        (example_strategy [example_order SELL ''a''] [example_take_profit ''tp'' (example_order SELL ''a'')])))
     = [Some 2000]
   \<and> map terminated_at (tracked_orders (perform_all
        [Close_filled_order accepting_gateway example_market 2000 (example_order SELL ''a'') MARKET STOP_LOSS,
         Did_cancel_order 3000 \<lparr>ca_order_id = ''a''\<rparr>]
        (example_strategy [example_order SELL ''a''] [example_take_profit ''tp'' (example_order SELL ''a'')])))
     = [Some 3000]
   \<and> map terminated_at (tracked_orders (perform_all
        [Close_filled_order accepting_gateway example_market 2000 (example_order SELL ''a'') MARKET STOP_LOSS,
         Did_fill_order accepting_gateway 2500 (example_fill ''tp'' 2 97 2500 (Some ''CLOSE''))]
        (example_strategy [example_order SELL ''a''] [example_take_profit ''tp'' (example_order SELL ''a'')])))
     = [Some 2500]"
  by (simp add: close_filled_order_cases float_true_div_0 did_cancel_order_def did_fill_order_def
                terminate_def reduce_tracked_order_def fill_tp_limit_order_def is_close_or_absent_def
                PositionAction_value_def accepting_gateway_def example_strategy_def example_config_def
                example_order_def example_take_profit_def example_fill_def Let_def)

theorem terminated_at_stays_set_witness:
  "terminated_at (tracked_orders (perform_all
        [Did_cancel_order 3000 \<lparr>ca_order_id = ''a''\<rparr>,
         Check_orders accepting_gateway example_market 4000]
        (example_strategy
           [(example_order SELL ''a'')\<lparr>terminated_at := Some 2000, close_type := Some STOP_LOSS\<rparr>] [])) ! 0)
     \<noteq> None
   \<and> tracked_orders (perform (Check_orders accepting_gateway (example_market\<lparr>mid_price := 103\<rparr>) 4000)
        (example_strategy
           [(example_order SELL ''a'')\<lparr>terminated_at := Some 2000, close_type := Some STOP_LOSS\<rparr>] [])) ! 0
     = (example_order SELL ''a'')\<lparr>terminated_at := Some 2000, close_type := Some STOP_LOSS\<rparr>
   \<and> terminated_at (tracked_orders (perform
        (Did_fill_order accepting_gateway 4000 (example_fill ''a'' 1 100 2500 (Some ''NIL'')))
        (example_strategy
           [(example_order SELL ''a'')\<lparr>terminated_at := Some 2000, close_type := Some STOP_LOSS\<rparr>] [])) ! 0)
     = Some 2000"
proof -
  let ?o = "(example_order SELL ''a'')\<lparr>terminated_at := Some 2000, close_type := Some STOP_LOSS\<rparr>"
  let ?s = "example_strategy [?o] []"
  let ?ops = "[Did_cancel_order 3000 \<lparr>ca_order_id = ''a''\<rparr>, Check_orders accepting_gateway example_market 4000]"
  let ?md = "example_market\<lparr>mid_price := 103\<rparr>"
  let ?ev = "example_fill ''a'' 1 100 2500 (Some ''NIL'')"
  have i: "0 < length (tracked_orders ?s)" by (simp add: example_strategy_def)
  have nth: "tracked_orders ?s ! 0 = ?o" by (simp add: example_strategy_def)
  have is_set: "terminated_at (tracked_orders ?s ! 0) \<noteq> None" by (simp add: nth)
  have tr: "truthy (terminated_at (tracked_orders ?s ! 0)) \<and> distinct (map order_id (tracked_orders ?s))"
    by (simp add: example_strategy_def truthy_def)
  have pos: "\<not> is_close_or_absent (fe_position ?ev)"
    by (simp add: example_fill_def is_close_or_absent_def PositionAction_value_def)
  have t: "terminated_at ?o = Some 2000" by simp
  show ?thesis
    using is_set tr pos t
          terminated_at_stays_set
            [where i = 0 and s = ?s and operations = ?ops and gw = accepting_gateway and md = ?md and
                   now = 4000 and filled_event = ?ev, OF i]
    by (simp add: nth)
qed

end
